theory Spec2Isabelle
  imports Main
begin

section \<open>PostgreSQL MCP server: a shallow embedding of postgres_mcp.py\<close>

text \<open>
  The server reads newline-delimited JSON-RPC requests from standard input, dispatches
  them in \<open>handle\<close>, and writes one JSON object per response line to standard output.
  The three tools open a database connection, run one statement and turn the outcome
  into text.

  Conventions of the embedding:
  \<^item> A Python \<open>str\<close> is the list of its code points (\<open>pystr\<close>); \<open>lit\<close> turns an ASCII
    literal into one. Whitespace is Python's: the set \<open>str.strip()\<close> removes and
    \<open>str.isspace()\<close> accepts. Upper-casing and printability are those of ASCII below 128;
    beyond, they are read from the tables of the Unicode database, which are parameters
    (\<open>upper_table\<close>, \<open>printable_table\<close>).
  \<^item> A value produced by \<open>json.loads\<close> is a \<open>json\<close>. A float is carried as its \<open>repr\<close>
    text. A Python dict is an association list in insertion order, looked up by first
    match.
  \<^item> An exception is a value of type \<open>exn\<close>; a function that may raise returns
    \<open>exn + 'a\<close> together with the world it leaves behind.
  \<^item> The standard library and the database driver are parameters (\<open>env\<close>):
    \<open>json.loads\<close>, \<open>psycopg2.connect\<close>, \<open>execute\<close> followed by \<open>fetchall\<close>, and
    \<open>json.dumps\<close> of the fetched rows. The database answers may depend on everything
    that happened on the database so far (\<open>db_log\<close>).
  \<^item> Standard output is the list of objects handed to \<open>json.dumps\<close> and printed, one
    per line; standard error is the list of log lines.
\<close>

subsection \<open>Strings\<close>

type_synonym pystr = "int list"

definition lit :: "string \<Rightarrow> pystr" where
  "lit s = map of_char s"

definition is_space :: "int \<Rightarrow> bool" where
  \<comment> \<open>the code points \<open>str.strip()\<close> removes: TAB, LF, VT, FF, CR, FS, GS, RS, US, SPACE,
      NEL, NBSP and the Unicode spaces and line separators\<close>
  "is_space n =
     ((9 \<le> n \<and> n \<le> 13) \<or> (28 \<le> n \<and> n \<le> 32) \<or> n = 0x85 \<or> n = 0xA0 \<or> n = 0x1680
      \<or> (0x2000 \<le> n \<and> n \<le> 0x200A) \<or> n = 0x2028 \<or> n = 0x2029 \<or> n = 0x202F
      \<or> n = 0x205F \<or> n = 0x3000)"

definition lstrip :: "pystr \<Rightarrow> pystr" where
  "lstrip s = dropWhile is_space s"

definition rstrip :: "pystr \<Rightarrow> pystr" where
  "rstrip s = rev (dropWhile is_space (rev s))"

definition strip :: "pystr \<Rightarrow> pystr" where
  "strip s = rstrip (lstrip s)"

definition upper_char :: "(int \<Rightarrow> pystr) \<Rightarrow> int \<Rightarrow> pystr" where
  \<comment> \<open>the upper-case form of one code point; beyond ASCII it may be several code points\<close>
  "upper_char tbl c =
     (if c < 128 then (if 97 \<le> c \<and> c \<le> 122 then [c - 32] else [c]) else tbl c)"

definition upper :: "(int \<Rightarrow> pystr) \<Rightarrow> pystr \<Rightarrow> pystr" where
  \<comment> \<open>\<open>s.upper()\<close>\<close>
  "upper tbl s = concat (map (upper_char tbl) s)"

definition startswith :: "pystr \<Rightarrow> pystr \<Rightarrow> bool" where
  "startswith s p = (take (length p) s = p)"

definition cross_mark :: pystr where
  \<comment> \<open>U+274C, the mark in front of the two error texts\<close>
  "cross_mark = [0x274C]"

definition arrow :: pystr where
  \<comment> \<open>U+2192, used in the log line\<close>
  "arrow = [0x2192]"

fun str_nat :: "nat \<Rightarrow> pystr" where
  "str_nat n = (if n < 10 then [48 + int n] else str_nat (n div 10) @ [48 + int (n mod 10)])"

definition str_int :: "int \<Rightarrow> pystr" where
  "str_int i = (if i < 0 then 45 # str_nat (nat (- i)) else str_nat (nat i))"

definition hex_digit :: "int \<Rightarrow> int" where
  "hex_digit d = (if d < 10 then 48 + d else 87 + d)"

fun hex_digits :: "nat \<Rightarrow> int \<Rightarrow> pystr" where
  \<comment> \<open>the last \<open>k\<close> hexadecimal digits of \<open>n\<close>, in lower case\<close>
  "hex_digits 0 n = []"
| "hex_digits (Suc k) n = hex_digits k (n div 16) @ [hex_digit (n mod 16)]"

subsection \<open>JSON values and their Python string forms\<close>

datatype json =
    JNull
  | JBool bool
  | JInt int
  | JFloat pystr      \<comment> \<open>a float, carried as its \<open>repr\<close>\<close>
  | JStr pystr
  | JArr "json list"
  | JObj "(pystr \<times> json) list"

definition dict_get :: "(pystr \<times> json) list \<Rightarrow> pystr \<Rightarrow> json \<Rightarrow> json" where
  \<comment> \<open>\<open>d.get(key, default)\<close>\<close>
  "dict_get d k dflt = (case map_of d k of None \<Rightarrow> dflt | Some v \<Rightarrow> v)"

definition py_type_name :: "json \<Rightarrow> pystr" where
  "py_type_name v = (case v of JNull \<Rightarrow> lit ''NoneType'' | JBool _ \<Rightarrow> lit ''bool''
     | JInt _ \<Rightarrow> lit ''int'' | JFloat _ \<Rightarrow> lit ''float'' | JStr _ \<Rightarrow> lit ''str''
     | JArr _ \<Rightarrow> lit ''list'' | JObj _ \<Rightarrow> lit ''dict'')"

definition is_printable :: "(int \<Rightarrow> bool) \<Rightarrow> int \<Rightarrow> bool" where
  \<comment> \<open>\<open>str.isprintable()\<close> of one code point\<close>
  "is_printable tbl c = (if c < 128 then 32 \<le> c \<and> c < 127 else tbl c)"

definition repr_char :: "(int \<Rightarrow> bool) \<Rightarrow> int \<Rightarrow> int \<Rightarrow> pystr" where
  \<comment> \<open>one code point inside \<open>repr\<close> of a string quoted with \<open>q\<close>\<close>
  "repr_char tbl q c =
     (if c = 0x5C then [0x5C, 0x5C]
      else if c = q then [0x5C, q]
      else if c = 9 then lit [CHR 0x5C, CHR ''t'']
      else if c = 10 then lit [CHR 0x5C, CHR ''n'']
      else if c = 13 then lit [CHR 0x5C, CHR ''r'']
      else if is_printable tbl c then [c]
      else if c \<le> 0xFF then lit [CHR 0x5C, CHR ''x''] @ hex_digits 2 c
      else if c \<le> 0xFFFF then lit [CHR 0x5C, CHR ''u''] @ hex_digits 4 c
      else lit [CHR 0x5C, CHR ''U''] @ hex_digits 8 c)"

definition repr_str :: "(int \<Rightarrow> bool) \<Rightarrow> pystr \<Rightarrow> pystr" where
  \<comment> \<open>\<open>repr(s)\<close>: single quotes unless the string has a single quote and no double quote\<close>
  "repr_str tbl s =
     (let q = (if 0x27 \<in> set s \<and> 0x22 \<notin> set s then 0x22 else 0x27)
      in [q] @ concat (map (repr_char tbl q) s) @ [q])"

fun join :: "pystr \<Rightarrow> pystr list \<Rightarrow> pystr" where
  \<comment> \<open>\<open>sep.join(xs)\<close>\<close>
  "join sep [] = []"
| "join sep [x] = x"
| "join sep (x # y # ys) = x @ sep @ join sep (y # ys)"

fun py_repr :: "(int \<Rightarrow> bool) \<Rightarrow> json \<Rightarrow> pystr" where
  "py_repr tbl JNull = lit ''None''"
| "py_repr tbl (JBool b) = (if b then lit ''True'' else lit ''False'')"
| "py_repr tbl (JInt i) = str_int i"
| "py_repr tbl (JFloat r) = r"
| "py_repr tbl (JStr s) = repr_str tbl s"
| "py_repr tbl (JArr xs) = lit ''['' @ join (lit '', '') (map (py_repr tbl) xs) @ lit '']''"
| "py_repr tbl (JObj kvs) =
     lit ''{'' @ join (lit '', '')
        (map (\<lambda>kv. repr_str tbl (fst kv) @ lit '': '' @ py_repr tbl (snd kv)) kvs) @ lit ''}''"

definition py_str :: "(int \<Rightarrow> bool) \<Rightarrow> json \<Rightarrow> pystr" where
  \<comment> \<open>\<open>str(v)\<close>, also what an f-string inserts\<close>
  "py_str tbl v = (case v of JStr s \<Rightarrow> s | _ \<Rightarrow> py_repr tbl v)"

definition py_eq_str :: "json \<Rightarrow> pystr \<Rightarrow> bool" where
  \<comment> \<open>\<open>v == "literal"\<close>\<close>
  "py_eq_str v s = (v = JStr s)"

subsection \<open>Exceptions, the world, and the libraries the server calls\<close>

datatype exn =
    JSONDecodeError pystr       \<comment> \<open>raised by \<open>json.loads\<close>; carries \<open>str(e)\<close>\<close>
  | AttributeError pystr pystr  \<comment> \<open>type name and attribute\<close>
  | UnboundLocalError pystr     \<comment> \<open>the local variable read before assignment\<close>
  | IndexError pystr
  | DBError pystr               \<comment> \<open>raised by psycopg2; carries \<open>str(e)\<close>\<close>
  | DumpsError pystr            \<comment> \<open>raised by \<open>json.dumps\<close>; carries \<open>str(e)\<close>\<close>

definition str_exn :: "exn \<Rightarrow> pystr" where
  \<comment> \<open>\<open>str(e)\<close>\<close>
  "str_exn e = (case e of
       JSONDecodeError m \<Rightarrow> m
     | AttributeError t a \<Rightarrow>
         [0x27] @ t @ [0x27] @ lit '' object has no attribute '' @ [0x27] @ a @ [0x27]
     | UnboundLocalError v \<Rightarrow>
         lit ''cannot access local variable '' @ [0x27] @ v @ [0x27]
           @ lit '' where it is not associated with a value''
     | IndexError m \<Rightarrow> m
     | DBError m \<Rightarrow> m
     | DumpsError m \<Rightarrow> m)"

datatype sqlval = SqlNull | SqlInt int | SqlText pystr | SqlOther pystr
  \<comment> \<open>\<open>SqlOther\<close> carries the \<open>str()\<close> of a value of any other type (a date, a decimal)\<close>

type_synonym row = "(pystr \<times> sqlval) list"
  \<comment> \<open>column names and values in column order; a plain cursor yields the values as a tuple\<close>

definition str_sqlval :: "sqlval \<Rightarrow> pystr" where
  "str_sqlval v =
     (case v of SqlNull \<Rightarrow> lit ''None'' | SqlInt i \<Rightarrow> str_int i | SqlText s \<Rightarrow> s | SqlOther s \<Rightarrow> s)"

datatype db_event =
    Opened                              \<comment> \<open>\<open>psycopg2.connect\<close> returned a connection\<close>
  | Executed pystr "json list option"   \<comment> \<open>\<open>cur.execute(sql)\<close> or \<open>cur.execute(sql, params)\<close>\<close>
  | Closed                              \<comment> \<open>\<open>conn.close()\<close>\<close>

record world =
  stdout :: "json list"
  stderr :: "pystr list"
  db_log :: "db_event list"

record env =
  loads :: "pystr \<Rightarrow> pystr + json"
    \<comment> \<open>\<open>json.loads\<close>: the parsed value, or the message of the exception\<close>
  connect :: "db_event list \<Rightarrow> pystr option"
    \<comment> \<open>\<open>psycopg2.connect(**DB_CONFIG)\<close>: \<open>Some m\<close> when it raises with message \<open>m\<close>\<close>
  run :: "db_event list \<Rightarrow> pystr \<Rightarrow> json list option \<Rightarrow> pystr + row list"
    \<comment> \<open>the cursor block, \<open>cur.execute\<close> then \<open>cur.fetchall\<close>: the rows, or the message of
        the exception\<close>
  dumps_rows :: "bool \<Rightarrow> row list \<Rightarrow> pystr + pystr"
    \<comment> \<open>\<open>json.dumps(rows, indent=2)\<close>, the flag telling whether \<open>default=str\<close> is given\<close>
  upper_table :: "int \<Rightarrow> pystr"
    \<comment> \<open>the full upper-case mapping of the Unicode database, read beyond ASCII\<close>
  printable_table :: "int \<Rightarrow> bool"
    \<comment> \<open>the printable code points of the Unicode database, read beyond ASCII\<close>

definition open_connections :: "db_event list \<Rightarrow> int" where
  \<comment> \<open>connections opened and not closed\<close>
  "open_connections evs =
     int (length (filter (\<lambda>e. e = Opened) evs)) - int (length (filter (\<lambda>e. e = Closed) evs))"

definition log :: "pystr \<Rightarrow> world \<Rightarrow> world" where
  "log msg w = w\<lparr>stderr := stderr w @ [lit ''[PG-MCP] '' @ msg]\<rparr>"

definition get_conn :: "env \<Rightarrow> world \<Rightarrow> (exn + unit) \<times> world" where
  "get_conn env w =
     (case connect env (db_log w) of
        Some m \<Rightarrow> (Inl (DBError m), w)
      | None \<Rightarrow> (Inr (), w\<lparr>db_log := db_log w @ [Opened]\<rparr>))"

definition execute_fetchall ::
  "env \<Rightarrow> pystr \<Rightarrow> json list option \<Rightarrow> world \<Rightarrow> (exn + row list) \<times> world" where
  \<comment> \<open>the body of \<open>with conn.cursor(...) as cur\<close>\<close>
  "execute_fetchall env sql ps w =
     (let w' = w\<lparr>db_log := db_log w @ [Executed sql ps]\<rparr> in
      case run env (db_log w) sql ps of
        Inl m \<Rightarrow> (Inl (DBError m), w')
      | Inr rows \<Rightarrow> (Inr rows, w'))"

definition conn_close :: "world \<Rightarrow> world" where
  "conn_close w = w\<lparr>db_log := db_log w @ [Closed]\<rparr>"

definition send :: "(pystr \<times> json) list \<Rightarrow> world \<Rightarrow> world" where
  \<comment> \<open>\<open>resp.setdefault("jsonrpc", "2.0")\<close>, then the object is printed on one line\<close>
  "send resp w =
     (let resp' = (if map_of resp (lit ''jsonrpc'') = None
                   then resp @ [(lit ''jsonrpc'', JStr (lit ''2.0''))] else resp)
      in w\<lparr>stdout := stdout w @ [JObj resp']\<rparr>)"

definition format_text :: "env \<Rightarrow> json \<Rightarrow> json" where
  "format_text env text =
     JObj [(lit ''type'', JStr (lit ''text'')),
           (lit ''text'', JStr (py_str (printable_table env) text))]"

subsection \<open>The database functions\<close>

definition except_db_error :: "(exn + pystr) \<times> world \<Rightarrow> (exn + pystr) \<times> world" where
  \<comment> \<open>\<open>except Exception as e: return f"<mark> DB Error: {e}"\<close> around a body\<close>
  "except_db_error r =
     (case r of
        (Inl e, w) \<Rightarrow> (Inr (cross_mark @ lit '' DB Error: '' @ str_exn e), w)
      | (Inr s, w) \<Rightarrow> (Inr s, w))"

definition only_select :: pystr where
  "only_select = cross_mark @ lit '' Error: Only SELECT allowed.''"

definition query_db_try :: "env \<Rightarrow> pystr \<Rightarrow> world \<Rightarrow> (exn + pystr) \<times> world" where
  \<comment> \<open>the \<open>try\<close> block of \<open>query_db\<close>\<close>
  "query_db_try env query w =
     (case get_conn env w of
        (Inl e, w1) \<Rightarrow> (Inl e, w1)
      | (Inr _, w1) \<Rightarrow>
          (case execute_fetchall env query None w1 of
             (Inl e, w2) \<Rightarrow> (Inl e, w2)
           | (Inr rows, w2) \<Rightarrow>
               (let w3 = conn_close w2 in
                if rows = [] then (Inr (lit ''No results''), w3)
                else (case dumps_rows env True rows of
                        Inl m \<Rightarrow> (Inl (DumpsError m), w3)
                      | Inr s \<Rightarrow> (Inr s, w3)))))"

definition query_db :: "env \<Rightarrow> json \<Rightarrow> world \<Rightarrow> (exn + pystr) \<times> world" where
  "query_db env query w =
     (case query of
        JStr q \<Rightarrow>
          if \<not> startswith (upper (upper_table env) (strip q)) (lit ''SELECT'')
          then (Inr only_select, w)
          else except_db_error (query_db_try env q w)
      | _ \<Rightarrow> (Inl (AttributeError (py_type_name query) (lit ''strip'')), w))"

definition nl :: pystr where
  "nl = [10]"

definition spaces :: "nat \<Rightarrow> pystr" where
  "spaces n = replicate n 32"

definition list_tables_sql :: pystr where
  "list_tables_sql =
     nl @ spaces 16 @ lit ''SELECT table_name '' @
     nl @ spaces 16 @ lit ''FROM information_schema.tables '' @
     nl @ spaces 16 @ lit ''WHERE table_schema='' @ [0x27] @ lit ''public'' @ [0x27] @
     nl @ spaces 16 @ lit ''ORDER BY table_name'' @
     nl @ spaces 12"

fun bullet_lines :: "row list \<Rightarrow> exn + pystr list" where
  \<comment> \<open>\<open>f"- {row[0]}" for row in rows\<close>; \<open>row[0]\<close> of an empty tuple raises\<close>
  "bullet_lines [] = Inr []"
| "bullet_lines (r # rs) =
     (case r of
        [] \<Rightarrow> Inl (IndexError (lit ''tuple index out of range''))
      | c # _ \<Rightarrow> (case bullet_lines rs of
                    Inl e \<Rightarrow> Inl e
                  | Inr ls \<Rightarrow> Inr ((lit ''- '' @ str_sqlval (snd c)) # ls)))"

definition list_tables_try :: "env \<Rightarrow> world \<Rightarrow> (exn + pystr) \<times> world" where
  "list_tables_try env w =
     (case get_conn env w of
        (Inl e, w1) \<Rightarrow> (Inl e, w1)
      | (Inr _, w1) \<Rightarrow>
          (case execute_fetchall env list_tables_sql None w1 of
             (Inl e, w2) \<Rightarrow> (Inl e, w2)
           | (Inr rows, w2) \<Rightarrow>
               (let w3 = conn_close w2 in
                if rows = [] then (Inr (lit ''No tables''), w3)
                else (case bullet_lines rows of
                        Inl e \<Rightarrow> (Inl e, w3)
                      | Inr ls \<Rightarrow> (Inr (join nl ls), w3)))))"

definition list_tables :: "env \<Rightarrow> world \<Rightarrow> (exn + pystr) \<times> world" where
  "list_tables env w = except_db_error (list_tables_try env w)"

definition describe_table_sql :: pystr where
  "describe_table_sql =
     nl @ spaces 16 @ lit ''SELECT column_name, data_type, is_nullable '' @
     nl @ spaces 16 @ lit ''FROM information_schema.columns'' @
     nl @ spaces 16 @ lit ''WHERE table_name=%s'' @
     nl @ spaces 16 @ lit ''ORDER BY ordinal_position'' @
     nl @ spaces 12"

definition not_found :: "env \<Rightarrow> json \<Rightarrow> pystr" where
  \<comment> \<open>the f-string of \<open>describe_table\<close> for a table without columns\<close>
  "not_found env name = lit ''Table `'' @ py_str (printable_table env) name @ lit ''` not found.''"

definition describe_table_try :: "env \<Rightarrow> json \<Rightarrow> world \<Rightarrow> (exn + pystr) \<times> world" where
  "describe_table_try env name w =
     (case get_conn env w of
        (Inl e, w1) \<Rightarrow> (Inl e, w1)
      | (Inr _, w1) \<Rightarrow>
          (case execute_fetchall env describe_table_sql (Some [name]) w1 of
             (Inl e, w2) \<Rightarrow> (Inl e, w2)
           | (Inr rows, w2) \<Rightarrow>
               (let w3 = conn_close w2 in
                if rows = [] then (Inr (not_found env name), w3)
                else (case dumps_rows env False rows of
                        Inl m \<Rightarrow> (Inl (DumpsError m), w3)
                      | Inr s \<Rightarrow> (Inr s, w3)))))"

definition describe_table :: "env \<Rightarrow> json \<Rightarrow> world \<Rightarrow> (exn + pystr) \<times> world" where
  "describe_table env name w = except_db_error (describe_table_try env name w)"

subsection \<open>The method dispatcher\<close>

type_synonym response = "(pystr \<times> json) list"

definition method_not_found :: int where
  "method_not_found = - 32601"

definition server_error :: int where
  \<comment> \<open>the code of the error response written by the handler of \<open>main\<close>\<close>
  "server_error = - 32000"

definition initialize_result :: json where
  "initialize_result =
     JObj [(lit ''protocolVersion'', JStr (lit ''2024-11-05'')),
           (lit ''capabilities'',
              JObj [(lit ''tools'', JObj []), (lit ''resources'', JObj []), (lit ''prompts'', JObj [])]),
           (lit ''serverInfo'',
              JObj [(lit ''name'', JStr (lit ''postgres-mcp'')), (lit ''version'', JStr (lit ''1.0.0''))])]"

definition tools_list_result :: json where
  "tools_list_result =
     JObj [(lit ''tools'', JArr [
       JObj [(lit ''name'', JStr (lit ''query_database'')),
             (lit ''description'', JStr (lit ''Execute SELECT query'')),
             (lit ''inputSchema'',
                JObj [(lit ''type'', JStr (lit ''object'')),
                      (lit ''properties'', JObj [(lit ''query'', JObj [(lit ''type'', JStr (lit ''string''))])]),
                      (lit ''required'', JArr [JStr (lit ''query'')])])],
       JObj [(lit ''name'', JStr (lit ''list_tables'')),
             (lit ''description'', JStr (lit ''List PostgreSQL tables'')),
             (lit ''inputSchema'', JObj [(lit ''type'', JStr (lit ''object''))])],
       JObj [(lit ''name'', JStr (lit ''describe_table'')),
             (lit ''description'', JStr (lit ''Describe a table'')),
             (lit ''inputSchema'',
                JObj [(lit ''type'', JStr (lit ''object'')),
                      (lit ''properties'', JObj [(lit ''table_name'', JObj [(lit ''type'', JStr (lit ''string''))])]),
                      (lit ''required'', JArr [JStr (lit ''table_name'')])])]])]"

definition args_get :: "json \<Rightarrow> pystr \<Rightarrow> exn + json" where
  \<comment> \<open>\<open>args.get(key, "")\<close>; anything but a dict has no \<open>get\<close>\<close>
  "args_get args k =
     (case args of
        JObj a \<Rightarrow> Inr (dict_get a k (JStr []))
      | _ \<Rightarrow> Inl (AttributeError (py_type_name args) (lit ''get'')))"

definition tool_call :: "env \<Rightarrow> json \<Rightarrow> world \<Rightarrow> (exn + pystr) \<times> world" where
  \<comment> \<open>the branch \<open>method == "tools/call"\<close> up to the assignment of \<open>out\<close>\<close>
  "tool_call env params w =
     (case params of
        JObj p \<Rightarrow>
          (let tool = dict_get p (lit ''name'') JNull;
               args = dict_get p (lit ''arguments'') (JObj [])
           in if py_eq_str tool (lit ''query_database'') then
                (case args_get args (lit ''query'') of
                   Inl e \<Rightarrow> (Inl e, w)
                 | Inr q \<Rightarrow> query_db env q w)
              else if py_eq_str tool (lit ''list_tables'') then list_tables env w
              else if py_eq_str tool (lit ''describe_table'') then
                (case args_get args (lit ''table_name'') of
                   Inl e \<Rightarrow> (Inl e, w)
                 | Inr n \<Rightarrow> describe_table env n w)
              else (Inr (lit ''Unknown tool: '' @ py_str (printable_table env) tool), w))
      | _ \<Rightarrow> (Inl (AttributeError (py_type_name params) (lit ''get'')), w))"

definition handle :: "env \<Rightarrow> json \<Rightarrow> world \<Rightarrow> (exn + response option) \<times> world" where
  "handle env msg w =
     (case msg of
        JObj m \<Rightarrow>
          (let method = dict_get m (lit ''method'') JNull;
               msg_id = dict_get m (lit ''id'') JNull;
               params = dict_get m (lit ''params'') (JObj []);
               w1 = log (lit ''Received '' @ arrow @ lit '' '' @ py_str (printable_table env) method) w
           in if py_eq_str method (lit ''initialize'') then
                (Inr (Some [(lit ''id'', msg_id), (lit ''result'', initialize_result)]), w1)
              else if py_eq_str method (lit ''tools/list'') then
                (Inr (Some [(lit ''id'', msg_id), (lit ''result'', tools_list_result)]), w1)
              else if py_eq_str method (lit ''tools/call'') then
                (case tool_call env params w1 of
                   (Inl e, w2) \<Rightarrow> (Inl e, w2)
                 | (Inr out, w2) \<Rightarrow>
                     (Inr (Some [(lit ''id'', msg_id),
                                 (lit ''result'',
                                    JObj [(lit ''content'', JArr [format_text env (JStr out)])])]), w2))
              else if py_eq_str method (lit ''notifications/initialized'') then (Inr None, w1)
              else
                (Inr (Some [(lit ''id'', msg_id),
                            (lit ''error'',
                               JObj [(lit ''code'', JInt method_not_found),
                                     (lit ''message'',
                                        JStr (lit ''Unknown method: ''
                                              @ py_str (printable_table env) method))])]), w1))
      | _ \<Rightarrow> (Inl (AttributeError (py_type_name msg) (lit ''get'')), w))"

subsection \<open>The transport loop\<close>

datatype exit = EndOfInput | Crashed exn
  \<comment> \<open>how \<open>main\<close> ends: \<open>readline\<close> returned the empty string, or an exception left the loop\<close>

definition on_exception :: "exn \<Rightarrow> json option \<Rightarrow> world \<Rightarrow> exn option \<times> world" where
  \<comment> \<open>the \<open>except Exception as e\<close> block of \<open>main\<close>; \<open>msg\<close> is the local variable, \<open>None\<close> while
      it is unbound. An exception raised here leaves \<open>main\<close>.\<close>
  "on_exception e msg w =
     (case msg of
        None \<Rightarrow> (Some (UnboundLocalError (lit ''msg'')), w)
      | Some (JObj m) \<Rightarrow>
          (None, send [(lit ''id'', dict_get m (lit ''id'') JNull),
                       (lit ''error'', JObj [(lit ''code'', JInt server_error),
                                             (lit ''message'', JStr (str_exn e))])] w)
      | Some v \<Rightarrow> (Some (AttributeError (py_type_name v) (lit ''get'')), w))"

definition loop_body ::
  "env \<Rightarrow> pystr \<Rightarrow> json option \<Rightarrow> world \<Rightarrow> exn option \<times> json option \<times> world" where
  \<comment> \<open>the \<open>try\<close> statement of \<open>main\<close> on a stripped, non-empty line: the exception that leaves
      the loop if any, the new value of the local variable \<open>msg\<close>, and the world\<close>
  "loop_body env line msg w =
     (case loads env line of
        Inl m \<Rightarrow> (case on_exception (JSONDecodeError m) msg w of (x, w') \<Rightarrow> (x, msg, w'))
      | Inr v \<Rightarrow>
          (case handle env v w of
             (Inl e, w1) \<Rightarrow> (case on_exception e (Some v) w1 of (x, w') \<Rightarrow> (x, Some v, w'))
           | (Inr response, w1) \<Rightarrow>
               (case response of
                  None \<Rightarrow> (None, Some v, w1)
                | Some r \<Rightarrow> (None, Some v, if r \<noteq> [] then send r w1 else w1))))"

fun main_loop :: "env \<Rightarrow> pystr list \<Rightarrow> json option \<Rightarrow> world \<Rightarrow> exit \<times> world" where
  \<comment> \<open>the \<open>while True\<close> loop over the lines still to be read, each without its terminator\<close>
  "main_loop env [] msg w = (EndOfInput, w)"
| "main_loop env (l # ls) msg w =
     (let line = strip (l @ nl)
      in if line = [] then main_loop env ls msg w
         else (case loop_body env line msg w of
                 (Some e, _, w') \<Rightarrow> (Crashed e, w')
               | (None, msg', w') \<Rightarrow> main_loop env ls msg' w'))"

definition main :: "env \<Rightarrow> pystr list \<Rightarrow> world \<Rightarrow> exit \<times> world" where
  "main env stdin w = main_loop env stdin None (log (lit ''PostgreSQL MCP Server Running'') w)"

definition world0 :: world where
  \<comment> \<open>nothing written, nothing done on the database\<close>
  "world0 = \<lparr>stdout = [], stderr = [], db_log = []\<rparr>"

subsection \<open>The claims' own notions, and concrete environments\<close>

definition select_prefixed :: "(int \<Rightarrow> pystr) \<Rightarrow> pystr \<Rightarrow> bool" where
  \<comment> \<open>the text, trimmed of whitespace and with case ignored, begins with SELECT\<close>
  "select_prefixed tbl q = startswith (upper tbl (strip q)) (lit ''SELECT'')"

definition db_error_prefix :: pystr where
  "db_error_prefix = cross_mark @ lit '' DB Error: ''"

definition is_string :: "json \<Rightarrow> bool" where
  "is_string v = (case v of JStr _ \<Rightarrow> True | _ \<Rightarrow> False)"

definition is_object :: "json \<Rightarrow> bool" where
  "is_object v = (case v of JObj _ \<Rightarrow> True | _ \<Rightarrow> False)"

definition has_key :: "string \<Rightarrow> json \<Rightarrow> bool" where
  "has_key k v = (case v of JObj d \<Rightarrow> map_of d (lit k) \<noteq> None | _ \<Rightarrow> False)"

definition member :: "string \<Rightarrow> json \<Rightarrow> json option" where
  "member k v = (case v of JObj d \<Rightarrow> map_of d (lit k) | _ \<Rightarrow> None)"

definition is_error_object :: "json \<Rightarrow> bool" where
  \<comment> \<open>an object with an integer \<open>code\<close> and a string \<open>message\<close>\<close>
  "is_error_object v =
     ((case member ''code'' v of Some (JInt _) \<Rightarrow> True | _ \<Rightarrow> False) \<and>
      (case member ''message'' v of Some (JStr _) \<Rightarrow> True | _ \<Rightarrow> False))"

definition well_formed_response :: "json \<Rightarrow> bool" where
  \<comment> \<open>a JSON object with \<open>jsonrpc\<close> equal to \<open>"2.0"\<close>, an \<open>id\<close>, and either a \<open>result\<close> or an
      \<open>error\<close> (an error object), not both\<close>
  "well_formed_response v =
     (member ''jsonrpc'' v = Some (JStr (lit ''2.0'')) \<and> has_key ''id'' v \<and>
      (if has_key ''error'' v
       then \<not> has_key ''result'' v
            \<and> (case member ''error'' v of Some e \<Rightarrow> is_error_object e | None \<Rightarrow> False)
       else has_key ''result'' v))"

definition result_response :: "json \<Rightarrow> pystr \<Rightarrow> response" where
  \<comment> \<open>the response of a tool call: a result holding one text content block\<close>
  "result_response msg_id text =
     [(lit ''id'', msg_id),
      (lit ''result'',
         JObj [(lit ''content'',
                  JArr [JObj [(lit ''type'', JStr (lit ''text'')), (lit ''text'', JStr text)]])])]"

definition error_response :: "json \<Rightarrow> int \<Rightarrow> pystr \<Rightarrow> response" where
  "error_response msg_id code message =
     [(lit ''id'', msg_id),
      (lit ''error'', JObj [(lit ''code'', JInt code), (lit ''message'', JStr message)])]"

definition written :: "response \<Rightarrow> json" where
  \<comment> \<open>the object on the output line for a response without a \<open>jsonrpc\<close> member\<close>
  "written r = JObj (r @ [(lit ''jsonrpc'', JStr (lit ''2.0''))])"

definition received :: "env \<Rightarrow> json \<Rightarrow> world \<Rightarrow> world" where
  \<comment> \<open>the log line \<open>handle\<close> writes for a message with the given method\<close>
  "received env method w =
     log (lit ''Received '' @ arrow @ lit '' '' @ py_str (printable_table env) method) w"

definition known_methods :: "json set" where
  "known_methods = {JStr (lit ''initialize''), JStr (lit ''tools/list''), JStr (lit ''tools/call''),
                    JStr (lit ''notifications/initialized'')}"

definition tool_names :: "json set" where
  "tool_names =
     {JStr (lit ''query_database''), JStr (lit ''list_tables''), JStr (lit ''describe_table'')}"

definition arguments_fit :: "(pystr \<times> json) list \<Rightarrow> bool" where
  \<comment> \<open>the arguments the named tool reads have the type it needs: for \<open>query_database\<close> an
      object whose \<open>query\<close>, when given, is a string; for \<open>describe_table\<close> an object\<close>
  "arguments_fit p =
     (let tool = dict_get p (lit ''name'') JNull;
          args = dict_get p (lit ''arguments'') (JObj [])
      in if tool = JStr (lit ''query_database'')
         then (case args of JObj a \<Rightarrow> is_string (dict_get a (lit ''query'') (JStr [])) | _ \<Rightarrow> False)
         else if tool = JStr (lit ''describe_table'') then is_object args
         else True)"

definition tool_request :: "int \<Rightarrow> string \<Rightarrow> (pystr \<times> json) list \<Rightarrow> (pystr \<times> json) list" where
  \<comment> \<open>a tools/call request with an id, a tool name and arguments\<close>
  "tool_request i nm args =
     [(lit ''id'', JInt i), (lit ''method'', JStr (lit ''tools/call'')),
      (lit ''params'', JObj [(lit ''name'', JStr (lit nm)), (lit ''arguments'', JObj args)])]"

definition msg_initialize :: json where
  "msg_initialize = JObj [(lit ''id'', JInt 1), (lit ''method'', JStr (lit ''initialize''))]"

definition msg_ping :: json where
  "msg_ping = JObj [(lit ''method'', JStr (lit ''ping''))]"

definition msg_initialized_with_id :: json where
  "msg_initialized_with_id =
     JObj [(lit ''id'', JInt 2), (lit ''method'', JStr (lit ''notifications/initialized''))]"

definition msg_query_number :: json where
  "msg_query_number = JObj (tool_request 3 ''query_database'' [(lit ''query'', JInt 5)])"

definition msg_bogus :: json where
  "msg_bogus =
     JObj [(lit ''method'', JStr (lit ''tools/call'')),
           (lit ''params'', JObj [(lit ''name'', JStr (lit ''bogus''))])]"

definition msg_select_missing :: json where
  "msg_select_missing =
     JObj (tool_request 4 ''query_database'' [(lit ''query'', JStr (lit ''SELECT * FROM missing''))])"

definition msg_query_no_arguments :: json where
  "msg_query_no_arguments =
     JObj [(lit ''id'', JInt 5), (lit ''method'', JStr (lit ''tools/call'')),
           (lit ''params'', JObj [(lit ''name'', JStr (lit ''query_database''))])]"

definition msg_describe_nope :: json where
  "msg_describe_nope =
     JObj (tool_request 6 ''describe_table'' [(lit ''table_name'', JStr (lit ''nope''))])"

definition msg_list_tables :: json where
  "msg_list_tables = JObj (tool_request 7 ''list_tables'' [])"

definition msg_drop :: json where
  "msg_drop = JObj (tool_request 8 ''query_database'' [(lit ''query'', JStr (lit ''DROP TABLE users''))])"

definition line_initialize :: pystr where
  \<open>line_initialize = lit ''{"id": 1, "method": "initialize"}''\<close>

definition line_ping :: pystr where
  \<open>line_ping = lit ''{"method": "ping"}''\<close>

definition line_initialized_with_id :: pystr where
  \<open>line_initialized_with_id = lit ''{"id": 2, "method": "notifications/initialized"}''\<close>

definition line_query_number :: pystr where
  \<open>line_query_number = lit
     ''{"id": 3, "method": "tools/call", "params": {"name": "query_database", "arguments": {"query": 5}}}''\<close>

definition line_bogus :: pystr where
  \<open>line_bogus = lit ''{"method":"tools/call","params":{"name":"bogus"}}''\<close>

definition line_select_missing :: pystr where
  \<open>line_select_missing = lit
     ''{"id": 4, "method": "tools/call", "params": {"name": "query_database", "arguments": {"query": "SELECT * FROM missing"}}}''\<close>

definition line_describe_nope :: pystr where
  \<open>line_describe_nope = lit
     ''{"id": 6, "method": "tools/call", "params": {"name": "describe_table", "arguments": {"table_name": "nope"}}}''\<close>

definition line_list_tables :: pystr where
  \<open>line_list_tables = lit
     ''{"id": 7, "method": "tools/call", "params": {"name": "list_tables", "arguments": {}}}''\<close>

definition line_drop :: pystr where
  \<open>line_drop = lit
     ''{"id": 8, "method": "tools/call", "params": {"name": "query_database", "arguments": {"query": "DROP TABLE users"}}}''\<close>

definition line_array :: pystr where
  "line_array = lit ''[1, 2]''"

definition line_not_json :: pystr where
  "line_not_json = lit ''not json''"

definition demo_lines :: "(pystr \<times> json) list" where
  \<comment> \<open>some request lines and the values \<open>json.loads\<close> gives for them\<close>
  "demo_lines =
     [(line_initialize, msg_initialize),
      (line_ping, msg_ping),
      (line_initialized_with_id, msg_initialized_with_id),
      (line_query_number, msg_query_number),
      (line_bogus, msg_bogus),
      (line_select_missing, msg_select_missing),
      (line_describe_nope, msg_describe_nope),
      (line_list_tables, msg_list_tables),
      (line_drop, msg_drop),
      (line_array, JArr [JInt 1, JInt 2])]"

definition demo_loads :: "pystr \<Rightarrow> pystr + json" where
  \<comment> \<open>\<open>json.loads\<close> on the lines above; any other line used below is not JSON at its first
      character\<close>
  "demo_loads line =
     (case map_of demo_lines line of
        Some v \<Rightarrow> Inr v
      | None \<Rightarrow> Inl (lit ''Expecting value: line 1 column 1 (char 0)''))"

definition demo_run :: "db_event list \<Rightarrow> pystr \<Rightarrow> json list option \<Rightarrow> pystr + row list" where
  \<comment> \<open>a database with one table \<open>users\<close>: the catalogue queries answer, and any other
      statement fails\<close>
  "demo_run evs sql ps =
     (if sql = list_tables_sql then Inr [[(lit ''table_name'', SqlText (lit ''users''))]]
      else if sql = describe_table_sql then Inr []
      else Inl (lit ''relation does not exist''))"

definition demo_upper :: "int \<Rightarrow> pystr" where
  \<comment> \<open>the upper-case forms of the code points beyond ASCII whose upper-case form holds an
      ASCII letter (as Python 3.11 has them); the identity on the others, which the texts
      below do not use\<close>
  "demo_upper c =
     (if c = 0xDF then lit ''SS'' else if c = 0x131 then lit ''I''
      else if c = 0x149 then [0x2BC, 78] else if c = 0x17F then lit ''S''
      else if c = 0x1F0 then [74, 0x30C] else if c = 0x1E96 then [72, 0x331]
      else if c = 0x1E97 then [84, 0x308] else if c = 0x1E98 then [87, 0x30A]
      else if c = 0x1E99 then [89, 0x30A] else if c = 0x1E9A then [65, 0x2BE]
      else if c = 0xFB00 then lit ''FF'' else if c = 0xFB01 then lit ''FI''
      else if c = 0xFB02 then lit ''FL'' else if c = 0xFB03 then lit ''FFI''
      else if c = 0xFB04 then lit ''FFL'' else if c = 0xFB05 then lit ''ST''
      else if c = 0xFB06 then lit ''ST'' else [c])"

definition demo_printable :: "int \<Rightarrow> bool" where
  \<comment> \<open>beyond ASCII, not printable: the controls up to U+009F, the whitespace, the zero-width
      space; the other code points are taken as printable, which the texts below do not use\<close>
  "demo_printable c = (0xA0 < c \<and> \<not> is_space c \<and> c \<noteq> 0x200B)"

definition demo_env :: env where
  "demo_env = \<lparr>loads = demo_loads, connect = (\<lambda>evs. None), run = demo_run,
                dumps_rows = (\<lambda>dflt rows. Inl (lit ''not serializable'')),
                upper_table = demo_upper, printable_table = demo_printable\<rparr>"

definition down_env :: env where
  \<comment> \<open>the database cannot be reached\<close>
  "down_env = demo_env\<lparr>connect := (\<lambda>evs. Some (lit ''connection refused''))\<rparr>"

definition failing_env :: env where
  \<comment> \<open>the database accepts connections and fails every statement\<close>
  "failing_env =
     demo_env\<lparr>run := (\<lambda>evs sql ps. Inl (lit ''server closed the connection unexpectedly''))\<rparr>"

definition id_of :: "(pystr \<times> json) list \<Rightarrow> json" where
  \<comment> \<open>\<open>msg.get("id")\<close>\<close>
  "id_of m = dict_get m (lit ''id'') JNull"

definition tool_of :: "(pystr \<times> json) list \<Rightarrow> json" where
  \<comment> \<open>\<open>params.get("name")\<close>\<close>
  "tool_of p = dict_get p (lit ''name'') JNull"

definition arguments_of :: "(pystr \<times> json) list \<Rightarrow> json" where
  \<comment> \<open>\<open>params.get("arguments", {})\<close>\<close>
  "arguments_of p = dict_get p (lit ''arguments'') (JObj [])"

definition printed :: "env \<Rightarrow> pystr \<Rightarrow> json option \<Rightarrow> world \<Rightarrow> json list" where
  \<comment> \<open>standard output after the transport loop has dealt with one line\<close>
  "printed env line msg w = stdout (snd (snd (loop_body env line msg w)))"

definition result_line :: "(pystr \<times> json) list \<Rightarrow> pystr \<Rightarrow> json" where
  \<comment> \<open>the output line that answers request \<open>m\<close> with a result holding the text\<close>
  "result_line m text = written (result_response (id_of m) text)"

definition error_line :: "(pystr \<times> json) list \<Rightarrow> int \<Rightarrow> pystr \<Rightarrow> json" where
  \<comment> \<open>the output line that answers request \<open>m\<close> with an error\<close>
  "error_line m code message = written (error_response (id_of m) code message)"

section \<open>Properties\<close>

subsection \<open>Literals\<close>

lemma lit_eq_iff [simp]: "lit a = lit b \<longleftrightarrow> a = b"
  by (simp add: lit_def inj_map_eq_map inj_of_char)

lemma lit_Nil [simp]: "lit [] = []"
  by (simp add: lit_def)

lemma lit_eq_Nil_iff [simp]: "lit a = [] \<longleftrightarrow> a = []"
  by (simp add: lit_def)

lemma length_lit [simp]: "length (lit a) = length a"
  by (simp add: lit_def)

subsection \<open>The SELECT guard\<close>

lemma only_select_not_db_error: "\<not> startswith only_select db_error_prefix"
  by code_simp

text \<open>
  The guard follows Python on text beyond ASCII: a leading no-break space is stripped, and
  the long s (U+017F) upper-cases to S, so both texts below pass the guard and reach the
  database.
\<close>

lemma guard_strips_no_break_space:
  "select_prefixed demo_upper (0xA0 # lit ''SELECT 1'')
   \<and> db_log (snd (query_db demo_env (JStr (0xA0 # lit ''SELECT 1'')) world0))
       = [Opened, Executed (0xA0 # lit ''SELECT 1'') None]"
  by code_simp

lemma guard_upper_cases_long_s:
  "select_prefixed demo_upper (0x17F # lit ''elect 1'')
   \<and> db_log (snd (query_db demo_env (JStr (0x17F # lit ''elect 1'')) world0))
       = [Opened, Executed (0x17F # lit ''elect 1'') None]"
  by code_simp

text \<open>
  C4. A query text whose whitespace-trimmed, case-ignoring prefix is not SELECT (the test
  is Python's \<open>strip\<close>, \<open>upper\<close> and \<open>startswith\<close>, on any text) is answered with the fixed
  text "Only SELECT allowed", which is not a DB-error text, and the world is left as it
  was: no connection is opened.
\<close>

theorem query_db_rejects_non_select:
  assumes "\<not> select_prefixed (upper_table env) q"
  shows "query_db env (JStr q) w = (Inr only_select, w)
       \<and> db_log (snd (query_db env (JStr q) w)) = db_log w
       \<and> \<not> startswith only_select db_error_prefix"
  using assms only_select_not_db_error
  by (simp add: query_db_def select_prefixed_def)

theorem query_db_rejects_non_select_witness:
  "\<not> select_prefixed (upper_table demo_env) (lit ''  drop table users'')
   \<and> query_db demo_env (JStr (lit ''  drop table users'')) world0 = (Inr only_select, world0)
   \<and> db_log (snd (query_db demo_env (JStr (lit ''  drop table users'')) world0)) = db_log world0
   \<and> \<not> startswith only_select db_error_prefix"
proof -
  have h: "\<not> select_prefixed (upper_table demo_env) (lit ''  drop table users'')" by code_simp
  show ?thesis
    using h query_db_rejects_non_select [OF h, of world0] by simp
qed

subsection \<open>The database functions never raise on a text query\<close>

lemma except_db_error_returns: "\<exists>s w'. except_db_error r = (Inr s, w')"
  by (cases r) (auto simp: except_db_error_def split: sum.splits)

lemma query_db_returns: "\<exists>s w'. query_db env (JStr q) w = (Inr s, w')"
  by (simp add: query_db_def except_db_error_returns)

lemma list_tables_returns: "\<exists>s w'. list_tables env w = (Inr s, w')"
  by (simp add: list_tables_def except_db_error_returns)

lemma describe_table_returns: "\<exists>s w'. describe_table env n w = (Inr s, w')"
  by (simp add: describe_table_def except_db_error_returns)

lemma query_db_refuses:
  "\<not> select_prefixed (upper_table env) q \<Longrightarrow> query_db env (JStr q) w = (Inr only_select, w)"
  by (simp add: query_db_def select_prefixed_def)

lemma query_db_unreachable:
  "select_prefixed (upper_table env) q \<Longrightarrow> connect env (db_log w) = Some e \<Longrightarrow>
   query_db env (JStr q) w = (Inr (db_error_prefix @ e), w)"
  by (simp add: query_db_def select_prefixed_def query_db_try_def get_conn_def
      except_db_error_def db_error_prefix_def str_exn_def)

lemma query_db_bad_sql:
  "select_prefixed (upper_table env) q \<Longrightarrow> connect env (db_log w) = None \<Longrightarrow>
   run env (db_log w @ [Opened]) q None = Inl e \<Longrightarrow>
   query_db env (JStr q) w =
     (Inr (db_error_prefix @ e), w\<lparr>db_log := db_log w @ [Opened, Executed q None]\<rparr>)"
  by (simp add: query_db_def select_prefixed_def query_db_try_def get_conn_def
      except_db_error_def db_error_prefix_def str_exn_def execute_fetchall_def)

lemma list_tables_unreachable:
  "connect env (db_log w) = Some e \<Longrightarrow> list_tables env w = (Inr (db_error_prefix @ e), w)"
  by (simp add: list_tables_def list_tables_try_def get_conn_def except_db_error_def
      db_error_prefix_def str_exn_def)

lemma list_tables_bad_sql:
  "connect env (db_log w) = None \<Longrightarrow>
   run env (db_log w @ [Opened]) list_tables_sql None = Inl e \<Longrightarrow>
   list_tables env w =
     (Inr (db_error_prefix @ e), w\<lparr>db_log := db_log w @ [Opened, Executed list_tables_sql None]\<rparr>)"
  by (simp add: list_tables_def list_tables_try_def get_conn_def except_db_error_def
      db_error_prefix_def str_exn_def execute_fetchall_def)

lemma describe_table_unreachable:
  "connect env (db_log w) = Some e \<Longrightarrow> describe_table env n w = (Inr (db_error_prefix @ e), w)"
  by (simp add: describe_table_def describe_table_try_def get_conn_def except_db_error_def
      db_error_prefix_def str_exn_def)

lemma describe_table_bad_sql:
  "connect env (db_log w) = None \<Longrightarrow>
   run env (db_log w @ [Opened]) describe_table_sql (Some [n]) = Inl e \<Longrightarrow>
   describe_table env n w =
     (Inr (db_error_prefix @ e),
      w\<lparr>db_log := db_log w @ [Opened, Executed describe_table_sql (Some [n])]\<rparr>)"
  by (simp add: describe_table_def describe_table_try_def get_conn_def except_db_error_def
      db_error_prefix_def str_exn_def execute_fetchall_def)

lemma describe_table_not_found:
  "connect env (db_log w) = None \<Longrightarrow>
   run env (db_log w @ [Opened]) describe_table_sql (Some [n]) = Inr [] \<Longrightarrow>
   describe_table env n w =
     (Inr (not_found env n),
      w\<lparr>db_log := db_log w @ [Opened, Executed describe_table_sql (Some [n]), Closed]\<rparr>)"
  by (simp add: describe_table_def describe_table_try_def get_conn_def except_db_error_def
      conn_close_def execute_fetchall_def)

subsection \<open>Standard output is written by \<open>send\<close> only\<close>

lemma log_db_log: "db_log (log s w) = db_log w"
  by (simp add: log_def)

lemma log_stdout: "stdout (log s w) = stdout w"
  by (simp add: log_def)

lemma received_db_log: "db_log (received env method w) = db_log w"
  by (simp add: received_def log_def)

lemma received_stdout: "stdout (received env method w) = stdout w"
  by (simp add: received_def log_def)

lemma except_db_error_stdout:
  "stdout (snd (except_db_error r)) = stdout (snd r)"
  by (cases r) (auto simp: except_db_error_def split: sum.splits)

lemma query_db_try_stdout: "stdout (snd (query_db_try env q w)) = stdout w"
  by (simp add: query_db_try_def get_conn_def execute_fetchall_def conn_close_def Let_def
      split: option.split sum.split)

lemma list_tables_try_stdout: "stdout (snd (list_tables_try env w)) = stdout w"
  by (simp add: list_tables_try_def get_conn_def execute_fetchall_def conn_close_def Let_def
      split: option.split sum.split)

lemma describe_table_try_stdout: "stdout (snd (describe_table_try env n w)) = stdout w"
  by (simp add: describe_table_try_def get_conn_def execute_fetchall_def conn_close_def Let_def
      split: option.split sum.split)

lemma query_db_stdout: "stdout (snd (query_db env q w)) = stdout w"
  by (cases q) (simp_all add: query_db_def except_db_error_stdout query_db_try_stdout)

lemma list_tables_stdout: "stdout (snd (list_tables env w)) = stdout w"
  by (simp add: list_tables_def except_db_error_stdout list_tables_try_stdout)

lemma describe_table_stdout: "stdout (snd (describe_table env n w)) = stdout w"
  by (simp add: describe_table_def except_db_error_stdout describe_table_try_stdout)

lemma tool_call_stdout: "stdout (snd (tool_call env params w)) = stdout w"
  by (cases params)
     (simp_all add: tool_call_def Let_def args_get_def query_db_stdout list_tables_stdout
        describe_table_stdout split: json.split sum.split)

lemma handle_stdout: "stdout (snd (handle env msg w)) = stdout w"
proof (cases msg)
  case (JObj m)
  have "stdout (snd (tool_call env ps (log s w))) = stdout w" for ps s
    by (simp add: tool_call_stdout log_stdout)
  then show ?thesis
    using JObj
    by (auto simp: handle_def Let_def log_stdout split: prod.split sum.split
        dest: arg_cong [where f = "\<lambda>r. stdout (snd r)"])
qed (simp_all add: handle_def)

lemma send_response: "stdout (send (result_response i t) w) = stdout w @ [written (result_response i t)]"
  by (simp add: send_def result_response_def written_def)

lemma send_error: "stdout (send (error_response i c s) w) = stdout w @ [written (error_response i c s)]"
  by (simp add: send_def error_response_def written_def)

subsection \<open>The dispatcher on a tool call\<close>

lemma handle_tools_call:
  assumes "dict_get m (lit ''method'') JNull = JStr (lit ''tools/call'')"
  shows "handle env (JObj m) w =
     (case tool_call env (dict_get m (lit ''params'') (JObj []))
             (received env (JStr (lit ''tools/call'')) w) of
        (Inl e, w2) \<Rightarrow> (Inl e, w2)
      | (Inr out, w2) \<Rightarrow> (Inr (Some (result_response (dict_get m (lit ''id'') JNull) out)), w2))"
  using assms
  by (simp add: handle_def py_eq_str_def Let_def result_response_def format_text_def py_str_def
      received_def split: prod.split sum.split)

lemma on_exception_object:
  "on_exception e (Some (JObj m)) w =
     (None, send (error_response (dict_get m (lit ''id'') JNull) server_error (str_exn e)) w)"
  by (simp add: on_exception_def error_response_def)

lemma tool_call_fits:
  assumes "arguments_fit p"
  shows "\<exists>out w'. tool_call env (JObj p) w = (Inr out, w')"
proof -
  consider (q) "tool_of p = JStr (lit ''query_database'')"
    | (l) "tool_of p \<noteq> JStr (lit ''query_database'')" "tool_of p = JStr (lit ''list_tables'')"
    | (d) "tool_of p \<noteq> JStr (lit ''query_database'')" "tool_of p \<noteq> JStr (lit ''list_tables'')"
          "tool_of p = JStr (lit ''describe_table'')"
    | (u) "tool_of p \<noteq> JStr (lit ''query_database'')" "tool_of p \<noteq> JStr (lit ''list_tables'')"
          "tool_of p \<noteq> JStr (lit ''describe_table'')"
    by blast
  then show ?thesis
  proof cases
    case q
    then obtain a s where "arguments_of p = JObj a" "dict_get a (lit ''query'') (JStr []) = JStr s"
      using assms
      by (auto simp: arguments_fit_def tool_of_def arguments_of_def Let_def is_string_def
          split: json.splits)
    then show ?thesis
      using q query_db_returns [of env s w]
      by (simp add: tool_call_def Let_def args_get_def py_eq_str_def tool_of_def arguments_of_def)
  next
    case l
    then show ?thesis
      using list_tables_returns [of env w]
      by (simp add: tool_call_def Let_def py_eq_str_def tool_of_def)
  next
    case d
    then obtain a where a: "arguments_of p = JObj a"
      using assms
      by (auto simp: arguments_fit_def tool_of_def arguments_of_def Let_def is_object_def
          split: json.splits)
    show ?thesis
      using d a describe_table_returns [of env "dict_get a (lit ''table_name'') (JStr [])" w]
      by (simp add: tool_call_def Let_def args_get_def py_eq_str_def tool_of_def arguments_of_def)
  next
    case u
    then show ?thesis
      by (simp add: tool_call_def Let_def py_eq_str_def tool_of_def)
  qed
qed

lemma tool_text_printed:
  assumes "loads env line = Inr (JObj m)"
      and "dict_get m (lit ''method'') JNull = JStr (lit ''tools/call'')"
      and "dict_get m (lit ''params'') (JObj []) = JObj p"
      and "tool_call env (JObj p) (received env (JStr (lit ''tools/call'')) w) = (Inr out, w')"
  shows "handle env (JObj m) w = (Inr (Some (result_response (id_of m) out)), w')"
    and "loop_body env line msg w = (None, Some (JObj m), send (result_response (id_of m) out) w')"
    and "printed env line msg w = stdout w @ [result_line m out]"
proof -
  show h: "handle env (JObj m) w = (Inr (Some (result_response (id_of m) out)), w')"
    using assms(3,4) by (simp add: handle_tools_call [OF assms(2)] id_of_def)
  have ne: "result_response (id_of m) out \<noteq> []" by (simp add: result_response_def)
  show l: "loop_body env line msg w =
      (None, Some (JObj m), send (result_response (id_of m) out) w')"
    using assms(1) h ne by (simp add: loop_body_def)
  have "stdout w' = stdout w"
    using tool_call_stdout [of env "JObj p" "received env (JStr (lit ''tools/call'')) w"] assms(4)
    by (simp add: received_stdout)
  then show "printed env line msg w = stdout w @ [result_line m out]"
    by (simp add: printed_def l send_response result_line_def)
qed

lemma tool_text_printed_fst:
  assumes "loads env line = Inr (JObj m)"
      and "dict_get m (lit ''method'') JNull = JStr (lit ''tools/call'')"
      and "dict_get m (lit ''params'') (JObj []) = JObj p"
      and "fst (tool_call env (JObj p) (received env (JStr (lit ''tools/call'')) w)) = Inr out"
  shows "printed env line msg w = stdout w @ [result_line m out]"
proof -
  obtain w' where "tool_call env (JObj p) (received env (JStr (lit ''tools/call'')) w) = (Inr out, w')"
    using assms(4) by (cases "tool_call env (JObj p) (received env (JStr (lit ''tools/call'')) w)") simp
  from tool_text_printed(3) [OF assms(1,2,3) this] show ?thesis .
qed

lemma tool_call_query:
  assumes "tool_of p = JStr (lit ''query_database'')" and "arguments_of p = JObj a"
  shows "tool_call env (JObj p) w = query_db env (dict_get a (lit ''query'') (JStr [])) w"
  using assms
  by (simp add: tool_call_def Let_def args_get_def py_eq_str_def tool_of_def arguments_of_def)

lemma tool_call_list:
  assumes "tool_of p = JStr (lit ''list_tables'')"
  shows "tool_call env (JObj p) w = list_tables env w"
  using assms by (simp add: tool_call_def Let_def py_eq_str_def tool_of_def)

lemma tool_call_describe:
  assumes "tool_of p = JStr (lit ''describe_table'')" and "arguments_of p = JObj a"
  shows "tool_call env (JObj p) w = describe_table env (dict_get a (lit ''table_name'') (JStr [])) w"
  using assms
  by (simp add: tool_call_def Let_def args_get_def py_eq_str_def tool_of_def arguments_of_def)
text \<open>
  C3. Take a line that parses to a tools/call request whose params are an object and whose
  arguments fit the named tool. Then \<open>handle\<close> returns a result response holding one text
  block, the transport loop goes on, and exactly that response is added to standard
  output: nothing raised in the database functions reaches the dispatcher or the loop.
  What the client reads in the failure cases:
  a statement that is not a SELECT gives the fixed refusal; an exception of
  \<open>psycopg2.connect\<close> (database unreachable) or of \<open>execute\<close>/\<open>fetchall\<close> (bad SQL) gives
  the DB-error mark followed by the exception's message; a table without columns gives
  the not-found text naming the table. The three database functions return text whatever
  the database does.
\<close>

theorem tool_failures_are_results:
  assumes "loads env line = Inr (JObj m)"
      and "dict_get m (lit ''method'') JNull = JStr (lit ''tools/call'')"
      and "dict_get m (lit ''params'') (JObj []) = JObj p"
      and "arguments_fit p"
  shows "(\<exists>out w'.
            handle env (JObj m) w = (Inr (Some (result_response (id_of m) out)), w')
          \<and> loop_body env line msg w =
              (None, Some (JObj m), send (result_response (id_of m) out) w')
          \<and> printed env line msg w = stdout w @ [result_line m out])
       \<and> (\<exists>s w'. query_db env (JStr q0) w0 = (Inr s, w'))
       \<and> (\<exists>s w'. list_tables env w0 = (Inr s, w'))
       \<and> (\<exists>s w'. describe_table env n0 w0 = (Inr s, w'))
       \<and> (tool_of p = JStr (lit ''query_database'') \<and> arguments_of p = JObj a
            \<and> dict_get a (lit ''query'') (JStr []) = JStr q
            \<and> \<not> select_prefixed (upper_table env) q
           \<longrightarrow> printed env line msg w = stdout w @ [result_line m only_select])
       \<and> (connect env (db_log w) = Some e \<longrightarrow>
            (tool_of p = JStr (lit ''query_database'') \<and> arguments_of p = JObj a
              \<and> dict_get a (lit ''query'') (JStr []) = JStr q
              \<and> select_prefixed (upper_table env) q
             \<longrightarrow> printed env line msg w = stdout w @ [result_line m (db_error_prefix @ e)])
          \<and> (tool_of p = JStr (lit ''list_tables'')
             \<longrightarrow> printed env line msg w = stdout w @ [result_line m (db_error_prefix @ e)])
          \<and> (tool_of p = JStr (lit ''describe_table'')
             \<longrightarrow> printed env line msg w = stdout w @ [result_line m (db_error_prefix @ e)]))
       \<and> (connect env (db_log w) = None \<longrightarrow>
            (tool_of p = JStr (lit ''query_database'') \<and> arguments_of p = JObj a
              \<and> dict_get a (lit ''query'') (JStr []) = JStr q
              \<and> select_prefixed (upper_table env) q
              \<and> run env (db_log w @ [Opened]) q None = Inl e
             \<longrightarrow> printed env line msg w = stdout w @ [result_line m (db_error_prefix @ e)])
          \<and> (tool_of p = JStr (lit ''list_tables'')
              \<and> run env (db_log w @ [Opened]) list_tables_sql None = Inl e
             \<longrightarrow> printed env line msg w = stdout w @ [result_line m (db_error_prefix @ e)])
          \<and> (tool_of p = JStr (lit ''describe_table'') \<and> arguments_of p = JObj a
              \<and> run env (db_log w @ [Opened]) describe_table_sql
                   (Some [dict_get a (lit ''table_name'') (JStr [])]) = Inl e
             \<longrightarrow> printed env line msg w = stdout w @ [result_line m (db_error_prefix @ e)])
          \<and> (tool_of p = JStr (lit ''describe_table'') \<and> arguments_of p = JObj a
              \<and> run env (db_log w @ [Opened]) describe_table_sql
                   (Some [dict_get a (lit ''table_name'') (JStr [])]) = Inr []
             \<longrightarrow> printed env line msg w = stdout w @
                   [result_line m (not_found env (dict_get a (lit ''table_name'') (JStr [])))]))"
proof -
  let ?w1 = "received env (JStr (lit ''tools/call'')) w"
  note P = tool_text_printed_fst [OF assms(1,2,3), where msg = msg and w = w]
  have l1: "db_log ?w1 = db_log w" by (simp add: received_db_log)
  obtain out w' where t: "tool_call env (JObj p) ?w1 = (Inr out, w')"
    using tool_call_fits [OF assms(4)] by blast
  have first: "\<exists>out w'.
            handle env (JObj m) w = (Inr (Some (result_response (id_of m) out)), w')
          \<and> loop_body env line msg w =
              (None, Some (JObj m), send (result_response (id_of m) out) w')
          \<and> printed env line msg w = stdout w @ [result_line m out]"
    using tool_text_printed [OF assms(1,2,3) t] by blast
  have refuse: "tool_of p = JStr (lit ''query_database'') \<and> arguments_of p = JObj a
            \<and> dict_get a (lit ''query'') (JStr []) = JStr q
            \<and> \<not> select_prefixed (upper_table env) q
           \<longrightarrow> printed env line msg w = stdout w @ [result_line m only_select]"
  proof
    assume h: "tool_of p = JStr (lit ''query_database'') \<and> arguments_of p = JObj a
            \<and> dict_get a (lit ''query'') (JStr []) = JStr q
            \<and> \<not> select_prefixed (upper_table env) q"
    then have "fst (tool_call env (JObj p) ?w1) = Inr only_select"
      by (simp add: tool_call_query [of p a] query_db_refuses)
    then show "printed env line msg w = stdout w @ [result_line m only_select]" by (rule P)
  qed
  have down: "connect env (db_log w) = Some e \<longrightarrow>
            (tool_of p = JStr (lit ''query_database'') \<and> arguments_of p = JObj a
              \<and> dict_get a (lit ''query'') (JStr []) = JStr q
              \<and> select_prefixed (upper_table env) q
             \<longrightarrow> printed env line msg w = stdout w @ [result_line m (db_error_prefix @ e)])
          \<and> (tool_of p = JStr (lit ''list_tables'')
             \<longrightarrow> printed env line msg w = stdout w @ [result_line m (db_error_prefix @ e)])
          \<and> (tool_of p = JStr (lit ''describe_table'')
             \<longrightarrow> printed env line msg w = stdout w @ [result_line m (db_error_prefix @ e)])"
  proof
    assume c: "connect env (db_log w) = Some e"
    then have c1: "connect env (db_log ?w1) = Some e" by (simp add: l1)
    have a1: "printed env line msg w = stdout w @ [result_line m (db_error_prefix @ e)]"
      if h: "tool_of p = JStr (lit ''query_database'') \<and> arguments_of p = JObj a
              \<and> dict_get a (lit ''query'') (JStr []) = JStr q
              \<and> select_prefixed (upper_table env) q"
    proof -
      have "fst (tool_call env (JObj p) ?w1) = Inr (db_error_prefix @ e)"
        using h c1 by (simp add: tool_call_query [of p a] query_db_unreachable)
      then show ?thesis by (rule P)
    qed
    have a2: "printed env line msg w = stdout w @ [result_line m (db_error_prefix @ e)]"
      if h: "tool_of p = JStr (lit ''list_tables'')"
    proof -
      have "fst (tool_call env (JObj p) ?w1) = Inr (db_error_prefix @ e)"
        using h c1 by (simp add: tool_call_list list_tables_unreachable)
      then show ?thesis by (rule P)
    qed
    have a3: "printed env line msg w = stdout w @ [result_line m (db_error_prefix @ e)]"
      if h: "tool_of p = JStr (lit ''describe_table'')"
    proof -
      obtain a' where a': "arguments_of p = JObj a'"
        using assms(4) h
        by (auto simp: arguments_fit_def tool_of_def arguments_of_def Let_def is_object_def
            split: json.splits)
      have "fst (tool_call env (JObj p) ?w1) = Inr (db_error_prefix @ e)"
        using h c1 by (simp add: tool_call_describe [OF h a'] describe_table_unreachable)
      then show ?thesis by (rule P)
    qed
    show "(tool_of p = JStr (lit ''query_database'') \<and> arguments_of p = JObj a
              \<and> dict_get a (lit ''query'') (JStr []) = JStr q
              \<and> select_prefixed (upper_table env) q
             \<longrightarrow> printed env line msg w = stdout w @ [result_line m (db_error_prefix @ e)])
          \<and> (tool_of p = JStr (lit ''list_tables'')
             \<longrightarrow> printed env line msg w = stdout w @ [result_line m (db_error_prefix @ e)])
          \<and> (tool_of p = JStr (lit ''describe_table'')
             \<longrightarrow> printed env line msg w = stdout w @ [result_line m (db_error_prefix @ e)])"
      using a1 a2 a3 by blast
  qed
  have bad: "connect env (db_log w) = None \<longrightarrow>
            (tool_of p = JStr (lit ''query_database'') \<and> arguments_of p = JObj a
              \<and> dict_get a (lit ''query'') (JStr []) = JStr q
              \<and> select_prefixed (upper_table env) q
              \<and> run env (db_log w @ [Opened]) q None = Inl e
             \<longrightarrow> printed env line msg w = stdout w @ [result_line m (db_error_prefix @ e)])
          \<and> (tool_of p = JStr (lit ''list_tables'')
              \<and> run env (db_log w @ [Opened]) list_tables_sql None = Inl e
             \<longrightarrow> printed env line msg w = stdout w @ [result_line m (db_error_prefix @ e)])
          \<and> (tool_of p = JStr (lit ''describe_table'') \<and> arguments_of p = JObj a
              \<and> run env (db_log w @ [Opened]) describe_table_sql
                   (Some [dict_get a (lit ''table_name'') (JStr [])]) = Inl e
             \<longrightarrow> printed env line msg w = stdout w @ [result_line m (db_error_prefix @ e)])
          \<and> (tool_of p = JStr (lit ''describe_table'') \<and> arguments_of p = JObj a
              \<and> run env (db_log w @ [Opened]) describe_table_sql
                   (Some [dict_get a (lit ''table_name'') (JStr [])]) = Inr []
             \<longrightarrow> printed env line msg w = stdout w @
                   [result_line m (not_found env (dict_get a (lit ''table_name'') (JStr [])))])"
  proof
    assume c: "connect env (db_log w) = None"
    then have c1: "connect env (db_log ?w1) = None" by (simp add: l1)
    have b1: "printed env line msg w = stdout w @ [result_line m (db_error_prefix @ e)]"
      if h: "tool_of p = JStr (lit ''query_database'') \<and> arguments_of p = JObj a
              \<and> dict_get a (lit ''query'') (JStr []) = JStr q
              \<and> select_prefixed (upper_table env) q
              \<and> run env (db_log w @ [Opened]) q None = Inl e"
    proof -
      have r: "run env (db_log ?w1 @ [Opened]) q None = Inl e" using h by (simp add: l1)
      have "fst (tool_call env (JObj p) ?w1) = Inr (db_error_prefix @ e)"
        using h by (simp add: tool_call_query [of p a] query_db_bad_sql [OF _ c1 r])
      then show ?thesis by (rule P)
    qed
    have b2: "printed env line msg w = stdout w @ [result_line m (db_error_prefix @ e)]"
      if h: "tool_of p = JStr (lit ''list_tables'')
              \<and> run env (db_log w @ [Opened]) list_tables_sql None = Inl e"
    proof -
      have r: "run env (db_log ?w1 @ [Opened]) list_tables_sql None = Inl e"
        using h by (simp add: l1)
      have "fst (tool_call env (JObj p) ?w1) = Inr (db_error_prefix @ e)"
        using h by (simp add: tool_call_list list_tables_bad_sql [OF c1 r])
      then show ?thesis by (rule P)
    qed
    have b3: "printed env line msg w = stdout w @ [result_line m (db_error_prefix @ e)]"
      if h: "tool_of p = JStr (lit ''describe_table'') \<and> arguments_of p = JObj a
              \<and> run env (db_log w @ [Opened]) describe_table_sql
                   (Some [dict_get a (lit ''table_name'') (JStr [])]) = Inl e"
    proof -
      have r: "run env (db_log ?w1 @ [Opened]) describe_table_sql
                   (Some [dict_get a (lit ''table_name'') (JStr [])]) = Inl e"
        using h by (simp add: l1)
      have "fst (tool_call env (JObj p) ?w1) = Inr (db_error_prefix @ e)"
        using h by (simp add: tool_call_describe [of p a] describe_table_bad_sql [OF c1 r])
      then show ?thesis by (rule P)
    qed
    have b4: "printed env line msg w = stdout w @
                   [result_line m (not_found env (dict_get a (lit ''table_name'') (JStr [])))]"
      if h: "tool_of p = JStr (lit ''describe_table'') \<and> arguments_of p = JObj a
              \<and> run env (db_log w @ [Opened]) describe_table_sql
                   (Some [dict_get a (lit ''table_name'') (JStr [])]) = Inr []"
    proof -
      have r: "run env (db_log ?w1 @ [Opened]) describe_table_sql
                   (Some [dict_get a (lit ''table_name'') (JStr [])]) = Inr []"
        using h by (simp add: l1)
      have "fst (tool_call env (JObj p) ?w1)
          = Inr (not_found env (dict_get a (lit ''table_name'') (JStr [])))"
        using h by (simp add: tool_call_describe [of p a] describe_table_not_found [OF c1 r])
      then show ?thesis by (rule P)
    qed
    show "(tool_of p = JStr (lit ''query_database'') \<and> arguments_of p = JObj a
              \<and> dict_get a (lit ''query'') (JStr []) = JStr q
              \<and> select_prefixed (upper_table env) q
              \<and> run env (db_log w @ [Opened]) q None = Inl e
             \<longrightarrow> printed env line msg w = stdout w @ [result_line m (db_error_prefix @ e)])
          \<and> (tool_of p = JStr (lit ''list_tables'')
              \<and> run env (db_log w @ [Opened]) list_tables_sql None = Inl e
             \<longrightarrow> printed env line msg w = stdout w @ [result_line m (db_error_prefix @ e)])
          \<and> (tool_of p = JStr (lit ''describe_table'') \<and> arguments_of p = JObj a
              \<and> run env (db_log w @ [Opened]) describe_table_sql
                   (Some [dict_get a (lit ''table_name'') (JStr [])]) = Inl e
             \<longrightarrow> printed env line msg w = stdout w @ [result_line m (db_error_prefix @ e)])
          \<and> (tool_of p = JStr (lit ''describe_table'') \<and> arguments_of p = JObj a
              \<and> run env (db_log w @ [Opened]) describe_table_sql
                   (Some [dict_get a (lit ''table_name'') (JStr [])]) = Inr []
             \<longrightarrow> printed env line msg w = stdout w @
                   [result_line m (not_found env (dict_get a (lit ''table_name'') (JStr [])))])"
      using b1 b2 b3 b4 by blast
  qed
  show ?thesis
    using first query_db_returns [of env q0 w0] list_tables_returns [of env w0]
      describe_table_returns [of env n0 w0] refuse down bad
    by (intro conjI) assumption+
qed
theorem tool_failures_are_results_witness:
  "loads demo_env line_select_missing = Inr msg_select_missing
   \<and> select_prefixed (upper_table demo_env) (lit ''SELECT * FROM missing'')
   \<and> run demo_env [Opened] (lit ''SELECT * FROM missing'') None = Inl (lit ''relation does not exist'')
   \<and> printed demo_env line_select_missing None world0 =
       [written (result_response (JInt 4) (db_error_prefix @ lit ''relation does not exist''))]
   \<and> printed demo_env line_drop None world0 = [written (result_response (JInt 8) only_select)]
   \<and> printed demo_env line_describe_nope None world0 =
       [written (result_response (JInt 6) (lit ''Table `nope` not found.''))]
   \<and> printed down_env line_list_tables None world0 =
       [written (result_response (JInt 7) (db_error_prefix @ lit ''connection refused''))]"
proof -
  let ?q = "lit ''SELECT * FROM missing''"
  let ?a = "[(lit ''query'', JStr ?q)]"
  let ?p = "[(lit ''name'', JStr (lit ''query_database'')), (lit ''arguments'', JObj ?a)]"
  let ?m = "tool_request 4 ''query_database'' ?a"
  have l: "loads demo_env line_select_missing = Inr (JObj ?m)" by code_simp
  have l': "loads demo_env line_select_missing = Inr msg_select_missing"
    using l by (simp add: msg_select_missing_def)
  have me: "dict_get ?m (lit ''method'') JNull = JStr (lit ''tools/call'')"
    by (simp add: tool_request_def dict_get_def)
  have pa: "dict_get ?m (lit ''params'') (JObj []) = JObj ?p"
    by (simp add: tool_request_def dict_get_def)
  have fit: "arguments_fit ?p"
    by (simp add: arguments_fit_def dict_get_def is_string_def)
  have s: "select_prefixed (upper_table demo_env) ?q" by code_simp
  have r: "run demo_env [Opened] ?q None = Inl (lit ''relation does not exist'')" by code_simp
  have c: "connect demo_env (db_log world0) = None" by (simp add: demo_env_def)
  have r0: "run demo_env (db_log world0 @ [Opened]) ?q None = Inl (lit ''relation does not exist'')"
    using r by (simp add: world0_def)
  have t: "tool_of ?p = JStr (lit ''query_database'')" by (simp add: tool_of_def dict_get_def)
  have a: "arguments_of ?p = JObj ?a" by (simp add: arguments_of_def dict_get_def)
  have q: "dict_get ?a (lit ''query'') (JStr []) = JStr ?q" by (simp add: dict_get_def)
  have i: "id_of ?m = JInt 4" by (simp add: id_of_def tool_request_def dict_get_def)
  have o: "stdout world0 = []" by (simp add: world0_def)
  have "printed demo_env line_select_missing None world0 =
      stdout world0 @ [result_line ?m (db_error_prefix @ lit ''relation does not exist'')]"
    using tool_failures_are_results [OF l me pa fit, where w = world0 and msg = None
        and a = ?a and q = ?q and e = "lit ''relation does not exist''"] c r0 t a q s
    by blast
  then have p1: "printed demo_env line_select_missing None world0 =
       [written (result_response (JInt 4) (db_error_prefix @ lit ''relation does not exist''))]"
    by (simp add: result_line_def i o)
  have p2: "printed demo_env line_drop None world0 = [written (result_response (JInt 8) only_select)]"
    by code_simp
  have p3: "printed demo_env line_describe_nope None world0 =
       [written (result_response (JInt 6) (lit ''Table `nope` not found.''))]"
    by code_simp
  have p4: "printed down_env line_list_tables None world0 =
       [written (result_response (JInt 7) (db_error_prefix @ lit ''connection refused''))]"
    by code_simp
  show ?thesis using l' s r p1 p2 p3 p4 by blast
qed

subsection \<open>Connections\<close>

lemma query_db_closes_on_success:
  assumes "select_prefixed (upper_table env) q" and "connect env (db_log w) = None"
      and "run env (db_log w @ [Opened]) q None = Inr rows"
  shows "db_log (snd (query_db env (JStr q) w)) = db_log w @ [Opened, Executed q None, Closed]"
  using assms
  by (cases "dumps_rows env True rows")
     (simp_all add: query_db_def select_prefixed_def query_db_try_def get_conn_def
        except_db_error_def execute_fetchall_def conn_close_def Let_def)

lemma open_connections_after_success:
  "open_connections (evs @ [Opened, Executed q ps, Closed]) = open_connections evs"
  by (simp add: open_connections_def)

lemma open_connections_after_failure:
  "open_connections (evs @ [Opened, Executed q ps]) = open_connections evs + 1"
  by (simp add: open_connections_def)

text \<open>
  C2. The three database functions call \<open>conn.close()\<close> after \<open>fetchall\<close> only: when the
  statement fails, the handler returns the error text and the connection that was opened
  is not closed. On a database that fails every statement, each of the three functions
  returns with one connection more open than before.
\<close>

theorem connection_left_open_on_error:
  "query_db failing_env (JStr (lit ''SELECT 1'')) world0 =
     (Inr (db_error_prefix @ lit ''server closed the connection unexpectedly''),
      world0\<lparr>db_log := [Opened, Executed (lit ''SELECT 1'') None]\<rparr>)
   \<and> open_connections (db_log (snd (query_db failing_env (JStr (lit ''SELECT 1'')) world0))) = 1
   \<and> db_log (snd (list_tables failing_env world0)) = [Opened, Executed list_tables_sql None]
   \<and> open_connections (db_log (snd (list_tables failing_env world0))) = 1
   \<and> db_log (snd (describe_table failing_env (JStr (lit ''users'')) world0))
        = [Opened, Executed describe_table_sql (Some [JStr (lit ''users'')])]
   \<and> open_connections (db_log (snd (describe_table failing_env (JStr (lit ''users'')) world0))) = 1"
proof -
  have s: "select_prefixed (upper_table failing_env) (lit ''SELECT 1'')" by code_simp
  have c: "connect failing_env (db_log world0) = None"
    by (simp add: failing_env_def demo_env_def)
  have r: "run failing_env evs sql ps = Inl (lit ''server closed the connection unexpectedly'')"
    for evs sql ps
    by (simp add: failing_env_def)
  have l0: "db_log world0 = []" by (simp add: world0_def)
  have q: "query_db failing_env (JStr (lit ''SELECT 1'')) world0 =
     (Inr (db_error_prefix @ lit ''server closed the connection unexpectedly''),
      world0\<lparr>db_log := [Opened, Executed (lit ''SELECT 1'') None]\<rparr>)"
    using query_db_bad_sql [OF s c r] by (simp add: l0)
  have l: "list_tables failing_env world0 =
     (Inr (db_error_prefix @ lit ''server closed the connection unexpectedly''),
      world0\<lparr>db_log := [Opened, Executed list_tables_sql None]\<rparr>)"
    using list_tables_bad_sql [OF c r] by (simp add: l0)
  have d: "describe_table failing_env (JStr (lit ''users'')) world0 =
     (Inr (db_error_prefix @ lit ''server closed the connection unexpectedly''),
      world0\<lparr>db_log := [Opened, Executed describe_table_sql (Some [JStr (lit ''users'')])]\<rparr>)"
    using describe_table_bad_sql [OF c r] by (simp add: l0)
  have o: "open_connections [Opened, Executed sql ps] = 1" for sql ps
    by (simp add: open_connections_def)
  show ?thesis by (simp add: q l d o)
qed

subsection \<open>Unknown methods and unknown tools\<close>

text \<open>
  C7. A message (a JSON object) whose method is none of the four known ones gets an error
  response with code -32601, the message \<open>Unknown method: \<close> followed by the method, and
  the id of the request (null when there is none). The handler of the transport loop uses
  the code -32000; both codes are negative and they differ.
\<close>

theorem unknown_method_error:
  assumes "dict_get m (lit ''method'') JNull \<notin> known_methods"
  shows "handle env (JObj m) w =
           (Inr (Some (error_response (dict_get m (lit ''id'') JNull) method_not_found
                         (lit ''Unknown method: ''
                          @ py_str (printable_table env) (dict_get m (lit ''method'') JNull)))),
            received env (dict_get m (lit ''method'') JNull) w)
       \<and> on_exception e (Some (JObj m)) w =
           (None, send (error_response (dict_get m (lit ''id'') JNull) server_error (str_exn e)) w)
       \<and> method_not_found = - 32601 \<and> server_error = - 32000
       \<and> method_not_found < 0 \<and> server_error < 0 \<and> method_not_found \<noteq> server_error"
  using assms
  by (simp add: handle_def py_eq_str_def Let_def error_response_def received_def
      known_methods_def on_exception_def method_not_found_def server_error_def)

theorem unknown_method_error_witness:
  "dict_get [(lit ''method'', JStr (lit ''ping''))] (lit ''method'') JNull \<notin> known_methods
   \<and> handle demo_env msg_ping world0 =
       (Inr (Some (error_response JNull (- 32601) (lit ''Unknown method: ping''))),
        received demo_env (JStr (lit ''ping'')) world0)"
proof -
  let ?m = "[(lit ''method'', JStr (lit ''ping''))]"
  have g: "dict_get ?m (lit ''method'') JNull = JStr (lit ''ping'')"
    by (simp add: dict_get_def)
  have i: "dict_get ?m (lit ''id'') JNull = JNull"
    by (simp add: dict_get_def)
  have h: "dict_get ?m (lit ''method'') JNull \<notin> known_methods"
    by (simp add: g known_methods_def)
  have s: "lit ''Unknown method: '' @ py_str tbl (JStr (lit ''ping'')) = lit ''Unknown method: ping''"
    for tbl by (simp add: py_str_def lit_def)
  show ?thesis
    using h unknown_method_error [OF h, of demo_env world0]
    by (simp add: msg_ping_def g i s)
qed

text \<open>
  C8. A tools/call whose params are an object and whose tool name is none of the three
  tools gets a result (not an error) holding one text block \<open>Unknown tool: \<close> followed
  by the name; for the name \<open>bogus\<close> the text is \<open>Unknown tool: bogus\<close>.
\<close>

theorem unknown_tool_result:
  assumes "dict_get m (lit ''method'') JNull = JStr (lit ''tools/call'')"
      and "dict_get m (lit ''params'') (JObj []) = JObj p"
      and "dict_get p (lit ''name'') JNull \<notin> tool_names"
  shows "handle env (JObj m) w =
           (Inr (Some (result_response (dict_get m (lit ''id'') JNull)
                         (lit ''Unknown tool: ''
                          @ py_str (printable_table env) (dict_get p (lit ''name'') JNull)))),
            received env (JStr (lit ''tools/call'')) w)"
proof -
  have "tool_call env (JObj p) w1 =
          (Inr (lit ''Unknown tool: '' @ py_str (printable_table env) (dict_get p (lit ''name'') JNull)), w1)"
    for w1
    using assms(3) by (simp add: tool_call_def Let_def py_eq_str_def tool_names_def)
  then show ?thesis
    using assms(2) by (simp add: handle_tools_call [OF assms(1)])
qed

theorem unknown_tool_result_witness:
  "dict_get [(lit ''method'', JStr (lit ''tools/call'')),
             (lit ''params'', JObj [(lit ''name'', JStr (lit ''bogus''))])]
      (lit ''method'') JNull = JStr (lit ''tools/call'')
   \<and> dict_get [(lit ''name'', JStr (lit ''bogus''))] (lit ''name'') JNull \<notin> tool_names
   \<and> handle demo_env msg_bogus world0 =
       (Inr (Some (result_response JNull (lit ''Unknown tool: bogus''))),
        received demo_env (JStr (lit ''tools/call'')) world0)"
proof -
  let ?p = "[(lit ''name'', JStr (lit ''bogus''))]"
  let ?m = "[(lit ''method'', JStr (lit ''tools/call'')), (lit ''params'', JObj ?p)]"
  have a: "dict_get ?m (lit ''method'') JNull = JStr (lit ''tools/call'')"
    by (simp add: dict_get_def)
  have b: "dict_get ?m (lit ''params'') (JObj []) = JObj ?p" by (simp add: dict_get_def)
  have n: "dict_get ?p (lit ''name'') JNull = JStr (lit ''bogus'')" by (simp add: dict_get_def)
  have c: "dict_get ?p (lit ''name'') JNull \<notin> tool_names" by (simp add: n tool_names_def)
  have i: "dict_get ?m (lit ''id'') JNull = JNull" by (simp add: dict_get_def)
  have s: "lit ''Unknown tool: '' @ py_str tbl (JStr (lit ''bogus'')) = lit ''Unknown tool: bogus''"
    for tbl by (simp add: py_str_def lit_def)
  show ?thesis
    using a c unknown_tool_result [OF a b c, of demo_env world0]
    by (simp add: msg_bogus_def i n s)
qed
subsection \<open>Absent and ill-typed tool arguments\<close>

lemma tool_call_returns_on_defaults:
  assumes "dict_get p (lit ''arguments'') (JObj []) = JObj a" and "map_of a (lit ''query'') = None"
  shows "\<exists>out w'. tool_call env (JObj p) w = (Inr out, w')"
proof (rule tool_call_fits)
  show "arguments_fit p"
    using assms
    by (simp add: arguments_fit_def Let_def dict_get_def is_string_def is_object_def)
qed

text \<open>
  C9. In a tools/call whose params are an object, a missing \<open>arguments\<close> is read as the
  empty mapping, and a missing \<open>query\<close> or \<open>table_name\<close> as the empty string: the tool
  functions are called as if the defaults had been sent, and the dispatcher returns a
  result response; it does not raise.
\<close>

theorem absent_arguments_tolerated:
  assumes "dict_get m (lit ''method'') JNull = JStr (lit ''tools/call'')"
      and "dict_get m (lit ''params'') (JObj []) = JObj p"
      and "map_of p (lit ''arguments'') = None
           \<or> (\<exists>a. map_of p (lit ''arguments'') = Some (JObj a)
                  \<and> map_of a (lit ''query'') = None \<and> map_of a (lit ''table_name'') = None)"
  shows "tool_call env (JObj p) w0 =
           (if dict_get p (lit ''name'') JNull = JStr (lit ''query_database'')
              then query_db env (JStr []) w0
            else if dict_get p (lit ''name'') JNull = JStr (lit ''list_tables'')
              then list_tables env w0
            else if dict_get p (lit ''name'') JNull = JStr (lit ''describe_table'')
              then describe_table env (JStr []) w0
            else (Inr (lit ''Unknown tool: ''
                       @ py_str (printable_table env) (dict_get p (lit ''name'') JNull)), w0))
       \<and> (map_of p (lit ''arguments'') = None \<longrightarrow>
            tool_call env (JObj p) w0
              = tool_call env (JObj (p @ [(lit ''arguments'', JObj [])])) w0)
       \<and> query_db env (JStr []) w0 = (Inr only_select, w0)
       \<and> (\<exists>out w'. handle env (JObj m) w =
                      (Inr (Some (result_response (dict_get m (lit ''id'') JNull) out)), w'))"
proof -
  obtain a where a: "dict_get p (lit ''arguments'') (JObj []) = JObj a"
    and q: "map_of a (lit ''query'') = None" and t: "map_of a (lit ''table_name'') = None"
    using assms(3) by (auto simp: dict_get_def)
  have route: "tool_call env (JObj p) w0 =
           (if dict_get p (lit ''name'') JNull = JStr (lit ''query_database'')
              then query_db env (JStr []) w0
            else if dict_get p (lit ''name'') JNull = JStr (lit ''list_tables'')
              then list_tables env w0
            else if dict_get p (lit ''name'') JNull = JStr (lit ''describe_table'')
              then describe_table env (JStr []) w0
            else (Inr (lit ''Unknown tool: ''
                       @ py_str (printable_table env) (dict_get p (lit ''name'') JNull)), w0))"
    using a q t by (simp add: tool_call_def Let_def args_get_def py_eq_str_def dict_get_def)
  have filled: "map_of p (lit ''arguments'') = None \<longrightarrow>
            tool_call env (JObj p) w0
              = tool_call env (JObj (p @ [(lit ''arguments'', JObj [])])) w0"
  proof
    assume n: "map_of p (lit ''arguments'') = None"
    have 1: "dict_get (p @ [(lit ''arguments'', JObj [])]) (lit ''name'') JNull
        = dict_get p (lit ''name'') JNull"
      by (simp add: dict_get_def map_add_def split: option.split)
    have 2: "dict_get (p @ [(lit ''arguments'', JObj [])]) (lit ''arguments'') (JObj []) = JObj []"
      using n by (simp add: dict_get_def map_add_def)
    have 3: "dict_get p (lit ''arguments'') (JObj []) = JObj []"
      using n by (simp add: dict_get_def)
    show "tool_call env (JObj p) w0
        = tool_call env (JObj (p @ [(lit ''arguments'', JObj [])])) w0"
      by (simp add: tool_call_def Let_def 1 2 3)
  qed
  have "\<not> select_prefixed (upper_table env) []"
    by (simp add: select_prefixed_def strip_def lstrip_def rstrip_def upper_def startswith_def
        lit_def)
  then have refuse: "query_db env (JStr []) w0 = (Inr only_select, w0)"
    by (rule query_db_refuses)
  obtain out w' where
    "tool_call env (JObj p) (received env (JStr (lit ''tools/call'')) w) = (Inr out, w')"
    using tool_call_returns_on_defaults [OF a q] by blast
  then have "handle env (JObj m) w =
      (Inr (Some (result_response (dict_get m (lit ''id'') JNull) out)), w')"
    using assms(2) by (simp add: handle_tools_call [OF assms(1)])
  then have res: "\<exists>out w'. handle env (JObj m) w =
                      (Inr (Some (result_response (dict_get m (lit ''id'') JNull) out)), w')"
    by blast
  show ?thesis using route filled refuse res by (intro conjI) assumption+
qed

theorem absent_arguments_tolerated_witness:
  "map_of [(lit ''name'', JStr (lit ''query_database''))] (lit ''arguments'') = None
   \<and> tool_call demo_env (JObj [(lit ''name'', JStr (lit ''query_database''))]) world0
       = (Inr only_select, world0)
   \<and> handle demo_env msg_query_no_arguments world0 =
       (Inr (Some (result_response (JInt 5) only_select)),
        received demo_env (JStr (lit ''tools/call'')) world0)"
proof -
  let ?p = "[(lit ''name'', JStr (lit ''query_database''))]"
  let ?m = "[(lit ''id'', JInt 5), (lit ''method'', JStr (lit ''tools/call'')),
             (lit ''params'', JObj ?p)]"
  have a: "dict_get ?m (lit ''method'') JNull = JStr (lit ''tools/call'')"
    by (simp add: dict_get_def)
  have b: "dict_get ?m (lit ''params'') (JObj []) = JObj ?p" by (simp add: dict_get_def)
  have n: "map_of ?p (lit ''arguments'') = None" by simp
  have c: "map_of ?p (lit ''arguments'') = None
           \<or> (\<exists>a. map_of ?p (lit ''arguments'') = Some (JObj a)
                  \<and> map_of a (lit ''query'') = None \<and> map_of a (lit ''table_name'') = None)"
    using n by blast
  have nm: "dict_get ?p (lit ''name'') JNull = JStr (lit ''query_database'')"
    by (simp add: dict_get_def)
  have i: "dict_get ?m (lit ''id'') JNull = JInt 5" by (simp add: dict_get_def)
  note T = absent_arguments_tolerated [OF a b c, of demo_env]
  have t1: "tool_call demo_env (JObj ?p) w0 = (Inr only_select, w0)" for w0
    using T [of w0 world0] by (simp add: nm)
  have t2: "handle demo_env msg_query_no_arguments world0 =
       (Inr (Some (result_response (JInt 5) only_select)),
        received demo_env (JStr (lit ''tools/call'')) world0)"
    using b by (simp add: msg_query_no_arguments_def handle_tools_call [OF a] t1 i)
  show ?thesis using n t1 t2 by blast
qed

text \<open>
  C10. When the \<open>query\<close> argument of a \<open>query_database\<close> call is present and is not a
  string (a number, a float, null, a list, an object), \<open>query_db\<close> raises at
  \<open>query.strip()\<close>, before the \<open>try\<close> block and before any connection is opened. The
  exception leaves \<open>handle\<close>, and the transport loop answers on standard output with one
  error response (code -32000, the request's id, the exception's text) instead of a tool
  result, and goes on.
\<close>

theorem non_string_query_escapes:
  assumes "loads env line = Inr (JObj m)"
      and "dict_get m (lit ''method'') JNull = JStr (lit ''tools/call'')"
      and "dict_get m (lit ''params'') (JObj []) = JObj p"
      and "dict_get p (lit ''name'') JNull = JStr (lit ''query_database'')"
      and "dict_get p (lit ''arguments'') (JObj []) = JObj a"
      and "dict_get a (lit ''query'') (JStr []) = v"
      and "\<not> is_string v"
  shows "query_db env v w0 = (Inl (AttributeError (py_type_name v) (lit ''strip'')), w0)
       \<and> handle env (JObj m) w =
           (Inl (AttributeError (py_type_name v) (lit ''strip'')),
            received env (JStr (lit ''tools/call'')) w)
       \<and> loop_body env line msg w =
           (None, Some (JObj m),
            send (error_response (dict_get m (lit ''id'') JNull) server_error
                    (str_exn (AttributeError (py_type_name v) (lit ''strip''))))
                 (received env (JStr (lit ''tools/call'')) w))
       \<and> printed env line msg w =
           stdout w @ [error_line m server_error
                         (str_exn (AttributeError (py_type_name v) (lit ''strip'')))]
       \<and> db_log (snd (snd (loop_body env line msg w))) = db_log w"
proof -
  have q: "query_db env v w1 = (Inl (AttributeError (py_type_name v) (lit ''strip'')), w1)" for w1
    using assms(7) by (cases v) (simp_all add: query_db_def is_string_def)
  have tc: "tool_call env (JObj p) w1 = (Inl (AttributeError (py_type_name v) (lit ''strip'')), w1)"
    for w1
    using assms(4,5,6) by (simp add: tool_call_def Let_def py_eq_str_def args_get_def q)
  have h: "handle env (JObj m) w =
           (Inl (AttributeError (py_type_name v) (lit ''strip'')),
            received env (JStr (lit ''tools/call'')) w)"
    using assms(3) by (simp add: handle_tools_call [OF assms(2)] tc)
  have l: "loop_body env line msg w =
           (None, Some (JObj m),
            send (error_response (dict_get m (lit ''id'') JNull) server_error
                    (str_exn (AttributeError (py_type_name v) (lit ''strip''))))
                 (received env (JStr (lit ''tools/call'')) w))"
    using assms(1) by (simp add: loop_body_def h on_exception_object)
  have pr: "printed env line msg w =
           stdout w @ [error_line m server_error
                         (str_exn (AttributeError (py_type_name v) (lit ''strip'')))]"
    by (simp add: printed_def l send_error received_stdout error_line_def id_of_def)
  have d: "db_log (snd (snd (loop_body env line msg w))) = db_log w"
    by (simp add: l send_def received_def log_def Let_def)
  show ?thesis using q h l pr d by blast
qed

theorem non_string_query_escapes_witness:
  "loads demo_env line_query_number = Inr msg_query_number
   \<and> \<not> is_string (JInt 5)
   \<and> query_db demo_env (JInt 5) world0 = (Inl (AttributeError (lit ''int'') (lit ''strip'')), world0)
   \<and> query_db demo_env (JFloat (lit ''1.5'')) world0
       = (Inl (AttributeError (lit ''float'') (lit ''strip'')), world0)
   \<and> query_db demo_env JNull world0
       = (Inl (AttributeError (lit ''NoneType'') (lit ''strip'')), world0)
   \<and> printed demo_env line_query_number None world0 =
       [written (error_response (JInt 3) (- 32000)
          ([0x27] @ lit ''int'' @ [0x27] @ lit '' object has no attribute '' @ [0x27] @ lit ''strip'' @ [0x27]))]"
proof -
  let ?a = "[(lit ''query'', JInt 5)]"
  let ?p = "[(lit ''name'', JStr (lit ''query_database'')), (lit ''arguments'', JObj ?a)]"
  let ?m = "tool_request 3 ''query_database'' ?a"
  have l: "loads demo_env line_query_number = Inr (JObj ?m)" by code_simp
  have l': "loads demo_env line_query_number = Inr msg_query_number"
    using l by (simp add: msg_query_number_def)
  have a: "dict_get ?m (lit ''method'') JNull = JStr (lit ''tools/call'')"
    by (simp add: dict_get_def tool_request_def)
  have b: "dict_get ?m (lit ''params'') (JObj []) = JObj ?p"
    by (simp add: dict_get_def tool_request_def)
  have c: "dict_get ?p (lit ''name'') JNull = JStr (lit ''query_database'')"
    by (simp add: dict_get_def)
  have d: "dict_get ?p (lit ''arguments'') (JObj []) = JObj ?a" by (simp add: dict_get_def)
  have e: "dict_get ?a (lit ''query'') (JStr []) = JInt 5" by (simp add: dict_get_def)
  have f: "\<not> is_string (JInt 5)" by (simp add: is_string_def)
  have i: "id_of ?m = JInt 3" by (simp add: id_of_def dict_get_def tool_request_def)
  have t: "py_type_name (JInt 5) = lit ''int''" by (simp add: py_type_name_def)
  have o: "stdout world0 = []" by (simp add: world0_def)
  note T = non_string_query_escapes [OF l a b c d e f, of world0 world0 None]
  have q1: "query_db demo_env (JInt 5) world0
      = (Inl (AttributeError (lit ''int'') (lit ''strip'')), world0)"
    using T by (simp add: t)
  have q2: "query_db demo_env (JFloat (lit ''1.5'')) world0
       = (Inl (AttributeError (lit ''float'') (lit ''strip'')), world0)"
    by (simp add: query_db_def py_type_name_def)
  have q3: "query_db demo_env JNull world0
       = (Inl (AttributeError (lit ''NoneType'') (lit ''strip'')), world0)"
    by (simp add: query_db_def py_type_name_def)
  have p: "printed demo_env line_query_number None world0 =
       [written (error_response (JInt 3) (- 32000)
          ([0x27] @ lit ''int'' @ [0x27] @ lit '' object has no attribute '' @ [0x27] @ lit ''strip'' @ [0x27]))]"
    using T by (simp add: t i o error_line_def str_exn_def server_error_def)
  show ?thesis using l' f q1 q2 q3 p by blast
qed

subsection \<open>What the transport loop writes\<close>

lemma handle_returns_for_objects:
  assumes "handle env v w = (Inr r, w')"
  shows "\<exists>m. v = JObj m"
  using assms by (cases v) (simp_all add: handle_def)

lemma handle_response_shape:
  assumes "handle env (JObj m) w = (Inr (Some r), w')"
  shows "(\<exists>x. r = [(lit ''id'', id_of m), (lit ''result'', x)])
       \<or> (\<exists>c s. r = error_response (id_of m) c s)"
  using assms
  by (auto simp: handle_def Let_def error_response_def id_of_def
      split: if_splits prod.splits sum.splits)

lemma send_shaped:
  assumes "(\<exists>x. r = [(lit ''id'', i), (lit ''result'', x)]) \<or> (\<exists>c s. r = error_response i c s)"
  shows "stdout (send r w) = stdout w @ [written r]"
  using assms by (auto simp: send_def error_response_def written_def)

lemma shaped_well_formed:
  assumes "(\<exists>x. r = [(lit ''id'', i), (lit ''result'', x)]) \<or> (\<exists>c s. r = error_response i c s)"
  shows "well_formed_response (written r)" and "member ''id'' (written r) = Some i"
  using assms
  by (auto simp: well_formed_response_def member_def has_key_def error_response_def
      is_error_object_def written_def)

lemma send_keeps_well_formed:
  assumes "\<forall>x \<in> set (stdout w). well_formed_response x"
      and "(\<exists>x. r = [(lit ''id'', i), (lit ''result'', x)]) \<or> (\<exists>c s. r = error_response i c s)"
  shows "\<forall>x \<in> set (stdout (send r w)). well_formed_response x"
  using assms(1) shaped_well_formed(1) [OF assms(2)] by (simp add: send_shaped [OF assms(2)])

lemma on_exception_keeps_well_formed:
  assumes "\<forall>x \<in> set (stdout w). well_formed_response x"
  shows "\<forall>x \<in> set (stdout (snd (on_exception e msg w))). well_formed_response x"
proof (cases msg)
  case None
  then show ?thesis using assms by (simp add: on_exception_def)
next
  case (Some v)
  show ?thesis
  proof (cases v)
    case (JObj m)
    have "on_exception e msg w =
        (None, send (error_response (dict_get m (lit ''id'') JNull) server_error (str_exn e)) w)"
      using Some JObj by (simp add: on_exception_object)
    moreover have "\<forall>x \<in> set (stdout (send (error_response (dict_get m (lit ''id'') JNull)
        server_error (str_exn e)) w)). well_formed_response x"
      by (rule send_keeps_well_formed [OF assms]) blast
    ultimately show ?thesis by simp
  qed (use Some assms in \<open>simp_all add: on_exception_def\<close>)
qed

lemma loop_body_keeps_well_formed:
  assumes "\<forall>x \<in> set (stdout w). well_formed_response x"
  shows "\<forall>x \<in> set (stdout (snd (snd (loop_body env line msg w)))). well_formed_response x"
proof (cases "loads env line")
  case (Inl s)
  then show ?thesis
    using on_exception_keeps_well_formed [OF assms, of "JSONDecodeError s" msg]
    by (simp add: loop_body_def split: prod.split)
next
  case (Inr v)
  obtain res w1 where h: "handle env v w = (res, w1)" by (cases "handle env v w")
  have w1: "\<forall>x \<in> set (stdout w1). well_formed_response x"
    using assms handle_stdout [of env v w] h by simp
  show ?thesis
  proof (cases res)
    case (Inl e)
    then show ?thesis
      using Inr h on_exception_keeps_well_formed [OF w1, of e "Some v"]
      by (simp add: loop_body_def split: prod.split)
  next
    case r: (Inr response)
    show ?thesis
    proof (cases response)
      case None
      then show ?thesis using Inr h r w1 by (simp add: loop_body_def)
    next
      case (Some resp)
      have hs: "handle env v w = (Inr (Some resp), w1)" using h r Some by simp
      then obtain m where m: "v = JObj m" using handle_returns_for_objects by blast
      from send_keeps_well_formed [OF w1 handle_response_shape [OF hs [unfolded m]]]
      show ?thesis using Inr h r Some w1 by (simp add: loop_body_def)
    qed
  qed
qed

lemma main_loop_keeps_well_formed:
  assumes "\<forall>x \<in> set (stdout w). well_formed_response x"
  shows "\<forall>x \<in> set (stdout (snd (main_loop env ls msg w))). well_formed_response x"
  using assms
proof (induction ls arbitrary: msg w)
  case Nil
  then show ?case by simp
next
  case (Cons l ls)
  show ?case
  proof (cases "strip (l @ nl) = []")
    case True
    then show ?thesis using Cons.IH [OF Cons.prems] by simp
  next
    case False
    obtain x msg' w' where b: "loop_body env (strip (l @ nl)) msg w = (x, msg', w')"
      by (cases "loop_body env (strip (l @ nl)) msg w") auto
    have w': "\<forall>x \<in> set (stdout w'). well_formed_response x"
      using loop_body_keeps_well_formed [OF Cons.prems, of env "strip (l @ nl)" msg] b by simp
    show ?thesis
    proof (cases x)
      case None
      then show ?thesis using False b Cons.IH [OF w'] by (simp add: Let_def)
    next
      case (Some e)
      then show ?thesis using False b w' by (simp add: Let_def)
    qed
  qed
qed

text \<open>
  C5. Every line the server writes is a JSON object with \<open>jsonrpc\<close> equal to \<open>"2.0"\<close>,
  an \<open>id\<close>, and either a \<open>result\<close> or an \<open>error\<close> holding an integer code and a string
  message, never both: if that holds of what was written before \<open>main\<close> starts, it holds
  of all that has been written when \<open>main\<close> ends, however it ends.
\<close>

theorem responses_well_formed:
  assumes "\<forall>r \<in> set (stdout w). well_formed_response r"
  shows "\<forall>r \<in> set (stdout (snd (main env stdin w))). well_formed_response r"
proof -
  have "\<forall>r \<in> set (stdout (log (lit ''PostgreSQL MCP Server Running'') w)). well_formed_response r"
    using assms by (simp add: log_stdout)
  then show ?thesis
    unfolding main_def by (rule main_loop_keeps_well_formed)
qed

theorem responses_well_formed_witness:
  "list_all well_formed_response (stdout world0)
   \<and> length (stdout (snd (main demo_env [line_initialize, line_not_json, line_ping, line_bogus] world0))) = 4
   \<and> list_all well_formed_response
        (stdout (snd (main demo_env [line_initialize, line_not_json, line_ping, line_bogus] world0)))"
proof -
  have h: "\<forall>r \<in> set (stdout world0). well_formed_response r" by (simp add: world0_def)
  have n: "length (stdout (snd (main demo_env [line_initialize, line_not_json, line_ping, line_bogus] world0))) = 4"
    by code_simp
  show ?thesis
    using h n responses_well_formed [OF h, of demo_env "[line_initialize, line_not_json, line_ping, line_bogus]"]
    by (simp add: list_all_iff)
qed

subsection \<open>How many lines one message produces\<close>

lemma handle_initialized_notification:
  assumes "dict_get m (lit ''method'') JNull = JStr (lit ''notifications/initialized'')"
  shows "handle env (JObj m) w =
     (Inr None, received env (JStr (lit ''notifications/initialized'')) w)"
  using assms by (simp add: handle_def Let_def py_eq_str_def received_def)

lemma handle_other_method_replies:
  assumes "dict_get m (lit ''method'') JNull \<noteq> JStr (lit ''notifications/initialized'')"
  shows "handle env (JObj m) w \<noteq> (Inr None, w')"
  using assms
  by (auto simp: handle_def Let_def py_eq_str_def split: prod.splits sum.splits)

text \<open>
  C6, as the code has it. Whether a line is written depends on the method, not on the
  presence of an id. For a line that parses to a JSON object: if the method is
  \<open>notifications/initialized\<close> nothing is written, with or without an id; for any other
  method exactly one line is added to the output, with or without an id, and that line is
  a well-formed response whose id is the request's id, null when the request has none.
  In both cases the loop goes on.
\<close>

theorem one_reply_unless_initialized_notification:
  assumes "loads env line = Inr (JObj m)"
  shows "fst (loop_body env line msg w) = None
       \<and> (if dict_get m (lit ''method'') JNull = JStr (lit ''notifications/initialized'')
          then printed env line msg w = stdout w
          else \<exists>r. printed env line msg w = stdout w @ [r]
                 \<and> well_formed_response r
                 \<and> member ''id'' r = Some (id_of m)
                 \<and> (\<not> has_key ''id'' (JObj m) \<longrightarrow> member ''id'' r = Some JNull))"
proof (cases "dict_get m (lit ''method'') JNull = JStr (lit ''notifications/initialized'')")
  case True
  then show ?thesis
    using assms
    by (simp add: loop_body_def handle_initialized_notification received_stdout printed_def)
next
  case False
  have null: "\<not> has_key ''id'' (JObj m) \<longrightarrow> id_of m = JNull"
    by (simp add: has_key_def id_of_def dict_get_def)
  obtain res w1 where h: "handle env (JObj m) w = (res, w1)" by (cases "handle env (JObj m) w")
  have w1: "stdout w1 = stdout w" using handle_stdout [of env "JObj m" w] h by simp
  have "\<exists>r. fst (loop_body env line msg w) = None
           \<and> printed env line msg w = stdout w @ [written r]
           \<and> ((\<exists>x. r = [(lit ''id'', id_of m), (lit ''result'', x)])
               \<or> (\<exists>c s. r = error_response (id_of m) c s))"
  proof (cases res)
    case (Inl e)
    have "fst (loop_body env line msg w) = None
        \<and> printed env line msg w
          = stdout w @ [written (error_response (id_of m) server_error (str_exn e))]"
      using assms h Inl w1
      by (simp add: loop_body_def on_exception_object printed_def send_error id_of_def)
    then show ?thesis by blast
  next
    case r: (Inr response)
    show ?thesis
    proof (cases response)
      case None
      then show ?thesis using handle_other_method_replies [OF False, of env w w1] h r by simp
    next
      case (Some resp)
      have hs: "handle env (JObj m) w = (Inr (Some resp), w1)" using h r Some by simp
      note shape = handle_response_shape [OF hs]
      have ne: "resp \<noteq> []" using shape by (auto simp: error_response_def)
      have "fst (loop_body env line msg w) = None
          \<and> printed env line msg w = stdout w @ [written resp]"
        using assms hs ne send_shaped [OF shape, of w1] w1
        by (simp add: loop_body_def printed_def)
      then show ?thesis using shape by blast
    qed
  qed
  then obtain r where r: "fst (loop_body env line msg w) = None"
      "printed env line msg w = stdout w @ [written r]"
      "(\<exists>x. r = [(lit ''id'', id_of m), (lit ''result'', x)])
         \<or> (\<exists>c s. r = error_response (id_of m) c s)"
    by blast
  have "well_formed_response (written r)" and "member ''id'' (written r) = Some (id_of m)"
    using shaped_well_formed [OF r(3)] by simp_all
  then have "\<exists>x. printed env line msg w = stdout w @ [x]
                 \<and> well_formed_response x
                 \<and> member ''id'' x = Some (id_of m)
                 \<and> (\<not> has_key ''id'' (JObj m) \<longrightarrow> member ''id'' x = Some JNull)"
    using r(2) null by auto
  then show ?thesis using r(1) False by simp
qed

theorem one_reply_unless_initialized_notification_witness:
  "loads demo_env line_ping = Inr msg_ping
   \<and> fst (loop_body demo_env line_ping None world0) = None
   \<and> (\<exists>r. printed demo_env line_ping None world0 = stdout world0 @ [r]
          \<and> well_formed_response r \<and> member ''id'' r = Some JNull)"
proof -
  let ?m = "[(lit ''method'', JStr (lit ''ping''))]"
  have l: "loads demo_env line_ping = Inr (JObj ?m)" by code_simp
  have l': "loads demo_env line_ping = Inr msg_ping" using l by (simp add: msg_ping_def)
  have m: "dict_get ?m (lit ''method'') JNull \<noteq> JStr (lit ''notifications/initialized'')"
    by (simp add: dict_get_def)
  have i: "id_of ?m = JNull" by (simp add: id_of_def dict_get_def)
  show ?thesis
    using l' m one_reply_unless_initialized_notification [OF l, of None world0]
    by (auto simp: i)
qed

text \<open>
  C6 as it is written fails both ways: a message without an id is answered (here with the
  error for an unknown method and a null id), and a message that carries an id gets no
  answer when its method is \<open>notifications/initialized\<close>.
\<close>

theorem reply_does_not_follow_id:
  "loads demo_env line_ping = Inr msg_ping
   \<and> \<not> has_key ''id'' msg_ping
   \<and> stdout (snd (main demo_env [line_ping] world0)) =
       [written (error_response JNull (- 32601) (lit ''Unknown method: ping''))]
   \<and> loads demo_env line_initialized_with_id = Inr msg_initialized_with_id
   \<and> has_key ''id'' msg_initialized_with_id
   \<and> fst (main demo_env [line_initialized_with_id] world0) = EndOfInput
   \<and> stdout (snd (main demo_env [line_initialized_with_id] world0)) = []"
  by code_simp

subsection \<open>A line that cannot be handled\<close>

lemma parse_failure_after_object:
  assumes "loads env line = Inl s"
  shows "loop_body env line (Some (JObj m)) w =
     (None, Some (JObj m),
      send (error_response (dict_get m (lit ''id'') JNull) server_error s) w)"
  using assms by (simp add: loop_body_def on_exception_object str_exn_def)

text \<open>
  C1. The handler of the transport loop reads the id from the local variable \<open>msg\<close>.
  When the first non-blank line is not JSON, \<open>msg\<close> was never assigned: the handler
  itself raises, nothing is written, and \<open>main\<close> ends without reading the valid line that
  follows. A line that is valid JSON but not an object (an array) ends \<open>main\<close> the same
  way, through \<open>msg.get\<close>. After an earlier object, a line that is not JSON is answered
  with that earlier message's id.
\<close>

theorem main_ends_on_unparseable_first_line:
  "loads demo_env line_not_json = Inl (lit ''Expecting value: line 1 column 1 (char 0)'')
   \<and> main demo_env [line_not_json, line_initialize] world0 =
       (Crashed (UnboundLocalError (lit ''msg'')), log (lit ''PostgreSQL MCP Server Running'') world0)
   \<and> stdout (snd (main demo_env [line_not_json, line_initialize] world0)) = []
   \<and> fst (main demo_env [line_array, line_initialize] world0)
       = Crashed (AttributeError (lit ''list'') (lit ''get''))
   \<and> stdout (snd (main demo_env [line_array, line_initialize] world0)) = []
   \<and> fst (main demo_env [line_initialize, line_not_json] world0) = EndOfInput
   \<and> stdout (snd (main demo_env [line_initialize, line_not_json] world0)) ! 1 =
       written (error_response (JInt 1) (- 32000)
                  (lit ''Expecting value: line 1 column 1 (char 0)''))"
  by code_simp

end
